theory Spec2Isabelle
  imports Main "HOL-Library.Sublist" "HOL-Library.Monad_Syntax"
begin

section \<open>Python strings\<close>

text \<open>
  A Python \<open>str\<close> is modelled as a \<open>string\<close> whose characters are the code points
  0 to 255 (Latin-1). The operations below are Python's own on that range:
  \<open>str.isspace\<close>, \<open>str.lower\<close>, \<open>str.strip\<close>, \<open>str(int)\<close> and
  \<open>urllib.parse.quote_plus\<close>.
\<close>

definition py_isspace :: "char \<Rightarrow> bool" where
  "py_isspace c = (of_char c \<in> {9, 10, 11, 12, 13, 28, 29, 30, 31, 32, 133, 160 :: nat})"

definition py_isupper :: "char \<Rightarrow> bool" where
  "py_isupper c =
     (let n = of_char c :: nat
      in (65 \<le> n \<and> n \<le> 90) \<or> (192 \<le> n \<and> n \<le> 222 \<and> n \<noteq> 215))"

text \<open>Every upper-case letter of the range has its lower-case form 32 code points
  above it, which is the same character with bit 5 set.\<close>

definition char_lower :: "char \<Rightarrow> char" where
  "char_lower c =
     (if py_isupper c
      then (case c of Char b0 b1 b2 b3 b4 b5 b6 b7 \<Rightarrow> Char b0 b1 b2 b3 b4 True b6 b7)
      else c)"

definition lower :: "string \<Rightarrow> string" where
  "lower s = map char_lower s"

definition strip :: "string \<Rightarrow> string" where
  "strip s = rev (dropWhile py_isspace (rev (dropWhile py_isspace s)))"

definition digit_char :: "nat \<Rightarrow> char" where
  "digit_char d = ''0123456789ABCDEF'' ! d"

fun str_nat :: "nat \<Rightarrow> string" where
  "str_nat n = (if n < 10 then [digit_char n] else str_nat (n div 10) @ [digit_char (n mod 10)])"

declare str_nat.simps [simp del]

definition str_int :: "int \<Rightarrow> string" where
  "str_int i = (if i < 0 then CHR ''-'' # str_nat (nat (- i)) else str_nat (nat i))"

text \<open>\<open>quote_plus\<close> keeps letters, digits and \<open>_.-~\<close>, writes a space as \<open>+\<close> and
  every other character as the percent-escaped bytes of its UTF-8 encoding.\<close>

definition unreserved :: "char \<Rightarrow> bool" where
  "unreserved c =
     (let n = of_char c :: nat
      in (48 \<le> n \<and> n \<le> 57) \<or> (65 \<le> n \<and> n \<le> 90) \<or> (97 \<le> n \<and> n \<le> 122)
         \<or> c \<in> set ''_.-~'')"

definition utf8_bytes :: "char \<Rightarrow> nat list" where
  "utf8_bytes c =
     (let n = of_char c :: nat
      in if n < 128 then [n] else [192 + n div 64, 128 + n mod 64])"

definition percent_byte :: "nat \<Rightarrow> string" where
  "percent_byte b = [CHR ''%'', digit_char (b div 16), digit_char (b mod 16)]"

definition quote_char :: "char \<Rightarrow> string" where
  "quote_char c =
     (if c = CHR '' '' then ''+''
      else if unreserved c then [c]
      else concat (map percent_byte (utf8_bytes c)))"

definition quote_plus :: "string \<Rightarrow> string" where
  "quote_plus s = concat (map quote_char s)"

section \<open>config.py\<close>

definition BASE_URL :: string where
  "BASE_URL = ''https://bdjobs.com''"

definition API_BASE_URL :: string where
  "API_BASE_URL = ''https://api.bdjobs.com''"

definition MAX_RETRIES :: nat where
  "MAX_RETRIES = 3"

section \<open>locations.py\<close>

text \<open>\<open>CITY_ID_MAP\<close> is a list of dictionaries with the two keys \<open>id\<close> and \<open>name\<close>;
  an entry is the pair (id, name), in the order of the source.\<close>

definition CITY_ID_MAP :: "(string \<times> string) list" where
  "CITY_ID_MAP =
   [(''1003'', ''Dhaka Division''), (''14'', ''Dhaka''), (''16'', ''Faridpur''),
    (''19'', ''Gazipur''), (''20'', ''Gopalganj''), (''29'', ''Kishoreganj''),
    (''34'', ''Madaripur''), (''36'', ''Manikganj''), (''39'', ''Munshiganj''),
    (''43'', ''Narayanganj''), (''44'', ''Narsingdi''), (''53'', ''Rajbari''),
    (''58'', ''Shariatpur''), (''63'', ''Tangail''),
    (''1002'', ''Chattogram Division''), (''3'', ''Bandarban''), (''1'', ''Brahmanbaria''),
    (''8'', ''Chandpur''), (''10'', ''Chattogram''), (''13'', ''Cox's Bazar''),
    (''12'', ''Cumilla''), (''17'', ''Feni''), (''27'', ''Khagrachhari''),
    (''33'', ''Lakshmipur''), (''48'', ''Noakhali''), (''55'', ''Rangamati''),
    (''1001'', ''Barishal Division''), (''7'', ''Barguna''), (''4'', ''Barishal''),
    (''5'', ''Bhola''), (''24'', ''Jhalakathi''), (''51'', ''Patuakhali''),
    (''52'', ''Pirojpur''),
    (''1004'', ''Khulna Division''), (''2'', ''Bagerhat''), (''11'', ''Chuadanga''),
    (''23'', ''Jashore''), (''25'', ''Jhenaidah''), (''28'', ''Khulna''),
    (''31'', ''Kushtia''), (''35'', ''Magura''), (''37'', ''Meherpur''),
    (''42'', ''Narail''), (''57'', ''Satkhira''),
    (''1005'', ''Mymensingh Division''), (''22'', ''Jamalpur''), (''40'', ''Mymensingh''),
    (''46'', ''Netrokona''), (''59'', ''Sherpur''),
    (''1006'', ''Rajshahi Division''), (''6'', ''Bogura''), (''9'', ''Chapainawabganj''),
    (''26'', ''Joypurhat''), (''41'', ''Naogaon''), (''45'', ''Natore''),
    (''49'', ''Pabna''), (''54'', ''Rajshahi''), (''60'', ''Sirajganj''),
    (''1007'', ''Rangpur Division''), (''15'', ''Dinajpur''), (''18'', ''Gaibandha''),
    (''30'', ''Kurigram''), (''32'', ''Lalmonirhat''), (''47'', ''Nilphamari''),
    (''50'', ''Panchagarh''), (''56'', ''Rangpur''), (''64'', ''Thakurgaon''),
    (''1008'', ''Sylhet Division''), (''21'', ''Habiganj''), (''38'', ''Moulvibazar''),
    (''61'', ''Sunamganj''), (''62'', ''Sylhet'')]"

text \<open>The two \<open>for\<close> loops over the table return at the first entry that matches.\<close>

primrec city_id_loop :: "(string \<times> string) list \<Rightarrow> string \<Rightarrow> string option" where
  "city_id_loop [] city_name_lower = None"
| "city_id_loop (city # rest) city_name_lower =
     (if lower (snd city) = city_name_lower then Some (fst city)
      else city_id_loop rest city_name_lower)"

definition get_city_id :: "string \<Rightarrow> string option" where
  "get_city_id city_name =
     (if city_name = [] then None
      else city_id_loop CITY_ID_MAP (strip (lower city_name)))"

primrec city_name_loop :: "(string \<times> string) list \<Rightarrow> string \<Rightarrow> string option" where
  "city_name_loop [] city_id = None"
| "city_name_loop (city # rest) city_id =
     (if fst city = city_id then Some (snd city) else city_name_loop rest city_id)"

definition get_city_name :: "string \<Rightarrow> string option" where
  "get_city_name city_id =
     (if city_id = [] then None else city_name_loop CITY_ID_MAP city_id)"

section \<open>Decoded JSON\<close>

text \<open>
  The value \<open>response.json()\<close> returns: \<open>None\<close>, a \<open>bool\<close>, an \<open>int\<close>, a \<open>float\<close>
  (a finite binary float, mantissa and exponent), a \<open>str\<close>, a \<open>list\<close> or a \<open>dict\<close> with
  string keys. A \<open>dict\<close> is an association list read with \<open>map_of\<close>.
\<close>

datatype json =
    JNull
  | JBool bool
  | JInt int
  | JFloat int int
  | JStr string
  | JArr "json list"
  | JObj "(string \<times> json) list"

type_synonym py_dict = "(string \<times> json) list"

text \<open>Python's truth value of a decoded value, as \<open>if status_code\<close> tests it.\<close>

fun truthy :: "json \<Rightarrow> bool" where
  "truthy JNull = False"
| "truthy (JBool b) = b"
| "truthy (JInt n) = (n \<noteq> 0)"
| "truthy (JFloat m e) = (m \<noteq> 0)"
| "truthy (JStr s) = (s \<noteq> [])"
| "truthy (JArr xs) = (xs \<noteq> [])"
| "truthy (JObj kv) = (kv \<noteq> [])"

text \<open>\<open>d.get(key)\<close> is \<open>None\<close> for a missing key; \<open>d.get(key, default)\<close> is the default.\<close>

definition dict_get :: "py_dict \<Rightarrow> string \<Rightarrow> json" where
  "dict_get d k = (case map_of d k of None \<Rightarrow> JNull | Some v \<Rightarrow> v)"

definition dict_get_default :: "py_dict \<Rightarrow> string \<Rightarrow> json \<Rightarrow> json" where
  "dict_get_default d k dflt = (case map_of d k of None \<Rightarrow> dflt | Some v \<Rightarrow> v)"

section \<open>What the libraries decide\<close>

text \<open>
  The program leaves to its libraries and to the server: the answer to each request, the
  conversions pydantic applies to a value that is not already of the field's type, the
  parsing of timestamps, and the text Python prints for a value or an exception. They
  are the fields of a record every operation below receives, so each theorem holds
  whatever they are.
  \<^item> \<open>respond n url\<close>: what \<open>client.get(url)\<close> followed by \<open>raise_for_status()\<close> and
    \<open>json()\<close> gives for the request sent after \<open>n\<close> earlier ones;
  \<^item> \<open>lax_int\<close>, \<open>lax_bool\<close>, \<open>lax_datetime\<close>: pydantic's validation of an \<open>int\<close>, a
    \<open>bool\<close> and a \<open>datetime\<close> field (\<open>None\<close>: the value is rejected);
  \<^item> \<open>str_value\<close>: \<open>str(v)\<close> for a decoded value that is not a \<open>str\<close>;
  \<^item> \<open>str_validation_error\<close>: the text of pydantic's \<open>ValidationError\<close> for a body;
  \<^item> \<open>str_type_error\<close>: the text of the \<open>TypeError\<close> of \<open>**\<close> applied to a body that
    is not a \<open>dict\<close>.
\<close>

datatype httpx_error = TimeoutException | RequestError | HTTPStatusError nat

datatype response = Raises httpx_error | Body "string + json"

record 'dt platform =
  respond :: "nat \<Rightarrow> string \<Rightarrow> response"
  lax_int :: "json \<Rightarrow> int option"
  lax_bool :: "json \<Rightarrow> bool option"
  lax_datetime :: "json \<Rightarrow> 'dt option"
  str_value :: "json \<Rightarrow> string"
  str_validation_error :: "json \<Rightarrow> string"
  str_type_error :: "json \<Rightarrow> string"

definition py_str :: "'dt platform \<Rightarrow> json \<Rightarrow> string" where
  "py_str P v = (case v of JStr s \<Rightarrow> s | _ \<Rightarrow> str_value P v)"

section \<open>models.py\<close>

text \<open>
  A pydantic model is built from a \<open>dict\<close>: a key that is absent takes the field's
  default, or makes the construction fail when the field is required (\<open>Field(...)\<close>);
  a key that is present is validated against the field's type; other keys are ignored.
  A \<open>str\<close> field accepts a \<open>str\<close> only, and \<open>str_strip_whitespace\<close> trims it.
\<close>

definition is_white_space :: "char \<Rightarrow> bool" where
  "is_white_space c = (of_char c \<in> {9, 10, 11, 12, 13, 32, 133, 160 :: nat})"

definition trim_ws :: "string \<Rightarrow> string" where
  "trim_ws s = rev (dropWhile is_white_space (rev (dropWhile is_white_space s)))"

definition str_field :: "bool \<Rightarrow> json \<Rightarrow> string option" where
  "str_field strip_whitespace v =
     (case v of JStr s \<Rightarrow> Some (if strip_whitespace then trim_ws s else s) | _ \<Rightarrow> None)"

definition optional :: "(json \<Rightarrow> 'a option) \<Rightarrow> json \<Rightarrow> 'a option option" where
  "optional validate v = (case v of JNull \<Rightarrow> Some None | _ \<Rightarrow> map_option Some (validate v))"

definition required :: "py_dict \<Rightarrow> string \<Rightarrow> (json \<Rightarrow> 'a option) \<Rightarrow> 'a option" where
  "required d k validate = (case map_of d k of None \<Rightarrow> None | Some v \<Rightarrow> validate v)"

definition with_default ::
  "py_dict \<Rightarrow> string \<Rightarrow> 'a \<Rightarrow> (json \<Rightarrow> 'a option) \<Rightarrow> 'a option" where
  "with_default d k dflt validate =
     (case map_of d k of None \<Rightarrow> Some dflt | Some v \<Rightarrow> validate v)"

definition model_field :: "(py_dict \<Rightarrow> 'a option) \<Rightarrow> json \<Rightarrow> 'a option" where
  "model_field construct v = (case v of JObj d \<Rightarrow> construct d | _ \<Rightarrow> None)"

definition list_field :: "(json \<Rightarrow> 'a option) \<Rightarrow> json \<Rightarrow> 'a list option" where
  "list_field validate v = (case v of JArr xs \<Rightarrow> those (map validate xs) | _ \<Rightarrow> None)"

record 'dt SearchResult =
  Jobid :: string
  AdType :: string
  jobTitle :: string
  companyName :: string
  JobTitleBng :: string
  deadline :: string
  deadlineDB :: "'dt option"
  publishDate :: "'dt option"
  eduRec :: string
  experience :: string
  standout :: int
  logo :: string
  lantype :: int
  location :: string
  JobLang :: string
  jobContext :: "string option"
  isEarlyAccess :: bool
  OnlineJob :: bool

definition SearchResult_init :: "'dt platform \<Rightarrow> py_dict \<Rightarrow> 'dt SearchResult option" where
  "SearchResult_init P d = do {
     v_Jobid \<leftarrow> required d ''Jobid'' (str_field True);
     v_AdType \<leftarrow> with_default d ''AdType'' ''0'' (str_field True);
     v_jobTitle \<leftarrow> required d ''jobTitle'' (str_field True);
     v_companyName \<leftarrow> required d ''companyName'' (str_field True);
     v_JobTitleBng \<leftarrow> with_default d ''JobTitleBng'' '''' (str_field True);
     v_deadline \<leftarrow> with_default d ''deadline'' '''' (str_field True);
     v_deadlineDB \<leftarrow> with_default d ''deadlineDB'' None (optional (lax_datetime P));
     v_publishDate \<leftarrow> with_default d ''publishDate'' None (optional (lax_datetime P));
     v_eduRec \<leftarrow> with_default d ''eduRec'' '''' (str_field True);
     v_experience \<leftarrow> with_default d ''experience'' '''' (str_field True);
     v_standout \<leftarrow> with_default d ''standout'' 0 (lax_int P);
     v_logo \<leftarrow> with_default d ''logo'' '''' (str_field True);
     v_lantype \<leftarrow> with_default d ''lantype'' 0 (lax_int P);
     v_location \<leftarrow> with_default d ''location'' '''' (str_field True);
     v_JobLang \<leftarrow> with_default d ''JobLang'' ''1'' (str_field True);
     v_jobContext \<leftarrow> with_default d ''jobContext'' None (optional (str_field True));
     v_isEarlyAccess \<leftarrow> with_default d ''isEarlyAccess'' False (lax_bool P);
     v_OnlineJob \<leftarrow> with_default d ''OnlineJob'' False (lax_bool P);
     Some \<lparr>Jobid = v_Jobid, AdType = v_AdType, jobTitle = v_jobTitle,
       companyName = v_companyName, JobTitleBng = v_JobTitleBng, deadline = v_deadline,
       deadlineDB = v_deadlineDB, publishDate = v_publishDate, eduRec = v_eduRec,
       experience = v_experience, standout = v_standout, logo = v_logo,
       lantype = v_lantype, location = v_location, JobLang = v_JobLang,
       jobContext = v_jobContext, isEarlyAccess = v_isEarlyAccess,
       OnlineJob = v_OnlineJob\<rparr>
   }"

definition get_job_url :: "'dt SearchResult \<Rightarrow> string" where
  "get_job_url self = BASE_URL @ ''/jobs/details/'' @ Jobid self"

definition is_remote :: "'dt SearchResult \<Rightarrow> bool" where
  "is_remote self = OnlineJob self"

record CommonFilters =
  total_records_found :: int
  showd :: string
  totalpages :: int
  total_vacancies :: int

definition CommonFilters_init :: "'dt platform \<Rightarrow> py_dict \<Rightarrow> CommonFilters option" where
  "CommonFilters_init P d = do {
     v_total_records_found \<leftarrow> with_default d ''total_records_found'' 0 (lax_int P);
     v_showd \<leftarrow> with_default d ''showd'' ''1'' (str_field False);
     v_totalpages \<leftarrow> with_default d ''totalpages'' 0 (lax_int P);
     v_total_vacancies \<leftarrow> with_default d ''total_vacancies'' 0 (lax_int P);
     Some \<lparr>total_records_found = v_total_records_found, showd = v_showd,
       totalpages = v_totalpages, total_vacancies = v_total_vacancies\<rparr>
   }"

record 'dt SearchResults =
  message :: string
  statuscode :: string
  data :: "'dt SearchResult list"
  premiumData :: "'dt SearchResult list"
  common :: CommonFilters

definition SearchResults_init :: "'dt platform \<Rightarrow> py_dict \<Rightarrow> 'dt SearchResults option" where
  "SearchResults_init P d = do {
     v_message \<leftarrow> required d ''message'' (str_field False);
     v_statuscode \<leftarrow> required d ''statuscode'' (str_field False);
     v_data \<leftarrow> with_default d ''data'' [] (list_field (model_field (SearchResult_init P)));
     v_premiumData \<leftarrow>
       with_default d ''premiumData'' [] (list_field (model_field (SearchResult_init P)));
     v_common \<leftarrow> required d ''common'' (model_field (CommonFilters_init P));
     Some \<lparr>message = v_message, statuscode = v_statuscode, data = v_data,
       premiumData = v_premiumData, common = v_common\<rparr>
   }"

definition all_jobs :: "'dt SearchResults \<Rightarrow> 'dt SearchResult list" where
  "all_jobs self = data self @ premiumData self"

definition total_results :: "'dt SearchResults \<Rightarrow> nat" where
  "total_results self = length (data self) + length (premiumData self)"

definition is_success :: "'dt SearchResults \<Rightarrow> bool" where
  "is_success self = (statuscode self = ''1'' \<and> lower (message self) = ''success'')"

definition get_remote_jobs :: "'dt SearchResults \<Rightarrow> 'dt SearchResult list" where
  "get_remote_jobs self = filter is_remote (all_jobs self)"

section \<open>http_client.py\<close>

text \<open>
  An exception is a value: its class and, where it has one, its message. \<open>HTTPError\<close>
  stands for the classes of httpx (a timeout, another request error, an error status).
\<close>

datatype exn =
    HTTPError httpx_error
  | ValueError string
  | RuntimeError string
  | TypeError string

text \<open>
  The state the claims depend on is the list of the URLs requested so far, oldest first.
  The body of \<open>api_get\<close> sends one request. Waiting (the rate limit, the back-off
  between attempts) takes time and changes nothing else; logging is left out.
\<close>

definition api_get_body :: "'dt platform \<Rightarrow> string \<Rightarrow> string list \<Rightarrow> (exn + json) \<times> string list" where
  "api_get_body P url sent =
     (let sent' = sent @ [url] in
      case respond P (length sent) url of
        Raises e \<Rightarrow> (Inl (HTTPError e), sent')
      | Body (Inl e) \<Rightarrow> (Inl (ValueError (''API returned invalid JSON: '' @ e)), sent')
      | Body (Inr d) \<Rightarrow>
          (case d of
             JObj kv \<Rightarrow>
               (let status_code = dict_get kv ''statuscode'' in
                if truthy status_code \<and> status_code \<noteq> JStr ''1''
                then (let error_msg = dict_get_default kv ''message'' (JStr ''Unknown API error'')
                      in (Inl (RuntimeError (''API error: '' @ py_str P error_msg)), sent'))
                else (Inr d, sent'))
           | _ \<Rightarrow> (Inr d, sent')))"

text \<open>
  The decorator \<open>retry(retry=..., stop=stop_after_attempt(n), reraise=True)\<close>: a call
  that returns, or raises an exception the retry condition rejects, ends the loop with
  that outcome; otherwise the loop stops, re-raising the last exception, once the number
  of the attempt has reached \<open>n\<close>, and calls again if not. Attempts count from 1.
\<close>

function retrying ::
  "nat \<Rightarrow> (exn \<Rightarrow> bool) \<Rightarrow> ('s \<Rightarrow> (exn + 'a) \<times> 's) \<Rightarrow> nat \<Rightarrow> 's \<Rightarrow> (exn + 'a) \<times> 's" where
  "retrying stop_after_attempt retry_if f attempt_number s =
     (case f s of
        (Inr v, s') \<Rightarrow> (Inr v, s')
      | (Inl e, s') \<Rightarrow>
          if \<not> retry_if e then (Inl e, s')
          else if attempt_number \<ge> stop_after_attempt then (Inl e, s')
          else retrying stop_after_attempt retry_if f (Suc attempt_number) s')"
  by pat_completeness auto
termination
  by (relation "measure (\<lambda>(n, r, f, k, s). n - k)") auto

declare retrying.simps [simp del]

fun retry_if_exception_type :: "exn \<Rightarrow> bool" where
  "retry_if_exception_type (HTTPError e) = True"
| "retry_if_exception_type (ValueError m) = False"
| "retry_if_exception_type (RuntimeError m) = False"
| "retry_if_exception_type (TypeError m) = False"

definition api_get :: "'dt platform \<Rightarrow> string \<Rightarrow> string list \<Rightarrow> (exn + json) \<times> string list" where
  "api_get P url sent =
     retrying MAX_RETRIES retry_if_exception_type (api_get_body P url) 1 sent"

section \<open>scraper.py\<close>

record search_args =
  keyword :: string
  location :: string
  page :: int
  results_per_page :: int
  job_type :: string
  job_level :: string
  age_start :: int
  age_end :: int
  posted_within :: string
  salary_start :: int
  salary_end :: int
  experience_start :: int
  experience_end :: int
  is_pro :: int
  is_fresher :: bool
  gender :: string
  toggle_jobs :: bool
  armyp :: string
  workplace :: string
  facilities_for_pwd :: string

text \<open>The arguments of a call that gives the keyword only: every other parameter at
  the default of the signature.\<close>

definition default_args :: "string \<Rightarrow> search_args" where
  "default_args kw =
     \<lparr>keyword = kw, location = '''', page = 1, results_per_page = 50, job_type = '''',
      job_level = '''', age_start = 0, age_end = 0, posted_within = '''',
      salary_start = 0, salary_end = 0, experience_start = 0, experience_end = 0,
      is_pro = 0, is_fresher = False, gender = '''', toggle_jobs = True, armyp = '''',
      workplace = '''', facilities_for_pwd = ''''\<rparr>"

text \<open>The local variables of \<open>build_search_url\<close>, one definition for each assignment.\<close>

definition age_range :: "search_args \<Rightarrow> string" where
  "age_range a =
     (if age_start a > 0 \<or> age_end a > 0
      then str_int (age_start a) @ ''/'' @ str_int (age_end a) else '''')"

definition salary_range :: "search_args \<Rightarrow> string" where
  "salary_range a =
     (if salary_start a > 0 \<or> salary_end a > 0
      then str_int (salary_start a) @ ''/'' @ str_int (salary_end a) else '''')"

definition experience_range :: "search_args \<Rightarrow> string" where
  "experience_range a =
     (if experience_start a > 0 \<or> experience_end a > 0
      then str_int (experience_start a) @ ''/'' @ str_int (experience_end a) else '''')"

definition location_id :: "search_args \<Rightarrow> string option" where
  "location_id a =
     (if search_args.location a \<noteq> [] then get_city_id (search_args.location a) else None)"

definition location_param :: "search_args \<Rightarrow> string" where
  "location_param a = (case location_id a of Some i \<Rightarrow> i | None \<Rightarrow> '''')"

definition build_search_url :: "search_args \<Rightarrow> string" where
  "build_search_url a =
     API_BASE_URL @ ''/Jobs/api/JobSearch/GetJobSearch?'' @
     ''Icat=&'' @
     ''industry=&'' @
     ''category=&'' @
     ''org=&'' @
     ''jobNature=&'' @
     ''Fcat=&'' @
     ''location='' @ location_param a @ ''&'' @
     ''Qot=&'' @
     ''jobType='' @ quote_plus (job_type a) @ ''&'' @
     ''jobLevel='' @ quote_plus (job_level a) @ ''&'' @
     ''postedWithin='' @ posted_within a @ ''&'' @
     ''deadline=&'' @
     ''keyword='' @ quote_plus (keyword a) @ ''&'' @
     ''pg='' @ str_int (page a) @ ''&'' @
     ''qAge='' @ age_range a @ ''&'' @
     ''Salary='' @ salary_range a @ ''&'' @
     ''experience='' @ experience_range a @ ''&'' @
     ''gender='' @ gender a @ ''&'' @
     ''MExp=&'' @
     ''genderB=&'' @
     ''MPostings=&'' @
     ''MCat=&'' @
     ''version=&'' @
     ''rpp='' @ str_int (results_per_page a) @ ''&'' @
     ''Newspaper=&'' @
     ''armyp='' @ armyp a @ ''&'' @
     ''QDisablePerson=&'' @
     ''pwd=&'' @
     ''workplace='' @ workplace a @ ''&'' @
     ''facilitiesForPWD='' @ facilities_for_pwd a @ ''&'' @
     ''SaveFilterList=&'' @
     ''UserFilterName=&'' @
     ''HUserFilterName=&'' @
     ''earlyJobAccess=&'' @
     ''isPro='' @ str_int (is_pro a) @ ''&'' @
     ''ToggleJobs='' @ (if toggle_jobs a then ''true'' else ''false'') @ ''&'' @
     ''isFresher='' @ (if is_fresher a then ''true'' else ''false'')"

text \<open>
  \<open>search_jobs\<close>: the three checks, then the request, then the construction of the
  result. A pydantic \<open>ValidationError\<close> becomes a \<open>ValueError\<close>; any other exception,
  also the \<open>TypeError\<close> of \<open>**response_data\<close> on a body that is not a \<open>dict\<close>, is logged
  and raised again as it is.
\<close>

definition search_jobs ::
  "'dt platform \<Rightarrow> search_args \<Rightarrow> string list \<Rightarrow> (exn + 'dt SearchResults) \<times> string list" where
  "search_jobs P a sent =
     (if keyword a = [] \<or> strip (keyword a) = []
      then (Inl (ValueError ''Keyword parameter is required and cannot be empty''), sent)
      else if page a < 1
      then (Inl (ValueError ''Page number must be >= 1''), sent)
      else if results_per_page a < 1 \<or> results_per_page a > 100
      then (Inl (ValueError ''Results per page must be between 1 and 100''), sent)
      else
        (let search_url = build_search_url a in
         case api_get P search_url sent of
           (Inl e, sent') \<Rightarrow> (Inl e, sent')
         | (Inr response_data, sent') \<Rightarrow>
             (case response_data of
                JObj kv \<Rightarrow>
                  (case SearchResults_init P kv of
                     Some results \<Rightarrow> (Inr results, sent')
                   | None \<Rightarrow>
                       (Inl (ValueError (''Invalid API response format: ''
                          @ str_validation_error P response_data)), sent'))
              | _ \<Rightarrow> (Inl (TypeError (str_type_error P response_data)), sent'))))"

section \<open>Terms of the specification\<close>

text \<open>Two strings are equal case-insensitively when they have the same length and
  agree, character by character, up to the case of letters.\<close>

definition eq_ignore_case :: "string \<Rightarrow> string \<Rightarrow> bool" where
  "eq_ignore_case s t = list_all2 (\<lambda>c d. char_lower c = char_lower d) s t"

text \<open>A decoded body signals an API error when it is a dictionary whose status code is
  present, truthy and not the sentinel \<open>"1"\<close>.\<close>

definition signals_api_error :: "json \<Rightarrow> bool" where
  "signals_api_error d =
     (case d of
        JObj kv \<Rightarrow>
          (case map_of kv ''statuscode'' of
             Some v \<Rightarrow> truthy v \<and> v \<noteq> JStr ''1''
           | None \<Rightarrow> False)
      | _ \<Rightarrow> False)"

text \<open>The arguments that pass the three checks of \<open>search_jobs\<close>, in the words of the
  specification: a keyword that is not empty after trimming, a page of at least 1, a
  page size from 1 to 100.\<close>

definition valid_args :: "search_args \<Rightarrow> bool" where
  "valid_args a =
     ((\<exists>c \<in> set (keyword a). \<not> py_isspace c) \<and> 1 \<le> page a
      \<and> 1 \<le> results_per_page a \<and> results_per_page a \<le> 100)"

text \<open>The four kinds of error of the specification, and how a caller tells the kind of
  an exception it has caught: by its class, and for a \<open>ValueError\<close> by its message,
  which is one of the three fixed messages of the checks when the arguments were bad.\<close>

datatype error_kind = ValidationError | TransportError | APIError | FormatError

definition validation_messages :: "string list" where
  "validation_messages =
     [''Keyword parameter is required and cannot be empty'',
      ''Page number must be >= 1'',
      ''Results per page must be between 1 and 100'']"

fun kind_of :: "exn \<Rightarrow> error_kind" where
  "kind_of (HTTPError e) = TransportError"
| "kind_of (RuntimeError m) = APIError"
| "kind_of (TypeError m) = FormatError"
| "kind_of (ValueError m) =
     (if m \<in> set validation_messages then ValidationError else FormatError)"

text \<open>
  An instance to evaluate the operations on: a server that follows a given script,
  conversions that accept a value of the field's own type only, timestamps kept as
  their text, and fixed texts for what Python would print.
\<close>

definition example_platform :: "(nat \<Rightarrow> string \<Rightarrow> response) \<Rightarrow> string platform" where
  "example_platform script =
     \<lparr>respond = script,
      lax_int = (\<lambda>v. case v of JInt n \<Rightarrow> Some n | _ \<Rightarrow> None),
      lax_bool = (\<lambda>v. case v of JBool b \<Rightarrow> Some b | _ \<Rightarrow> None),
      lax_datetime = (\<lambda>v. case v of JStr s \<Rightarrow> Some s | _ \<Rightarrow> None),
      str_value = (\<lambda>v. ''<value>''),
      str_validation_error = (\<lambda>v. ''<validation errors>''),
      str_type_error = (\<lambda>v. ''argument after ** must be a mapping'')\<rparr>"

definition example_page :: "string \<Rightarrow> string \<Rightarrow> string SearchResults" where
  "example_page msg code =
     \<lparr>message = msg, statuscode = code, data = [], premiumData = [],
      common = \<lparr>total_records_found = 0, showd = ''1'', totalpages = 0,
                total_vacancies = 0\<rparr>\<rparr>"

section \<open>The location index\<close>

lemma city_id_loop_found:
  "distinct (map (lower \<circ> snd) t) \<Longrightarrow> (i, n) \<in> set t \<Longrightarrow> city_id_loop t (lower n) = Some i"
  by (induction t) (auto simp: rev_image_eqI)

lemma city_name_loop_found:
  "distinct (map fst t) \<Longrightarrow> (i, n) \<in> set t \<Longrightarrow> city_name_loop t i = Some n"
  by (induction t) (auto simp: rev_image_eqI)

lemma city_id_loop_None:
  "city_id_loop t k = None \<longleftrightarrow> (\<forall>city \<in> set t. lower (snd city) \<noteq> k)"
  by (induction t) auto

lemma ids_distinct: "distinct (map fst CITY_ID_MAP)"
  unfolding CITY_ID_MAP_def by simp

lemma names_distinct: "distinct (map (lower \<circ> snd) CITY_ID_MAP)"
  unfolding CITY_ID_MAP_def by (simp add: lower_def char_lower_def py_isupper_def)

lemma entries_nonempty: "(i, n) \<in> set CITY_ID_MAP \<Longrightarrow> i \<noteq> [] \<and> n \<noteq> []"
  unfolding CITY_ID_MAP_def by auto

lemma strip_Nil [simp]: "strip [] = []"
  by (simp add: strip_def)

lemma lower_Nil_iff [simp]: "lower s = [] \<longleftrightarrow> s = []"
  by (simp add: lower_def)

lemma lower_Nil [simp]: "lower [] = []"
  by (simp add: lower_def)

lemma names_stripped: "(i, n) \<in> set CITY_ID_MAP \<Longrightarrow> strip (lower n) = lower n"
  unfolding CITY_ID_MAP_def
  by (auto simp: strip_def lower_def char_lower_def py_isupper_def py_isspace_def)

text \<open>
  C9. For every entry of the table, with identifier \<open>i\<close> and canonical name \<open>n\<close>:
  \<open>get_city_name\<close> applied to the result of \<open>get_city_id\<close> on the canonical name gives
  the canonical name back; and the same holds for every input \<open>s\<close> that is the name up
  to case and surrounding whitespace (what \<open>get_city_id\<close> compares, \<open>s.lower().strip()\<close>,
  equals the lowered name): \<open>get_city_id\<close> returns \<open>i\<close> on it and \<open>get_city_name\<close>
  returns \<open>n\<close> on \<open>i\<close>.
\<close>

theorem get_city_name_inverts_get_city_id:
  assumes "(i, n) \<in> set CITY_ID_MAP"
  shows "Option.bind (get_city_id n) get_city_name = Some n
    \<and> get_city_name i = Some n
    \<and> (\<forall>s. strip (lower s) = lower n \<longrightarrow>
          get_city_id s = Some i \<and> Option.bind (get_city_id s) get_city_name = Some n)"
proof -
  from assms have ne: "i \<noteq> []" "n \<noteq> []"
    using entries_nonempty by blast+
  have b: "get_city_name i = Some n"
    using city_name_loop_found [OF ids_distinct assms] ne
    by (simp add: get_city_name_def)
  have a: "get_city_id s = Some i" if k: "strip (lower s) = lower n" for s
  proof -
    have "s \<noteq> []"
    proof
      assume "s = []"
      with k have "lower n = []" by simp
      with ne show False by simp
    qed
    then show ?thesis
      using city_id_loop_found [OF names_distinct assms] k
      by (simp add: get_city_id_def)
  qed
  from a [OF names_stripped [OF assms]] a b show ?thesis
    by simp
qed

theorem get_city_name_inverts_get_city_id_witness:
  "Option.bind (get_city_id ''Cox's Bazar'') get_city_name = Some ''Cox's Bazar''
   \<and> get_city_id ''  DHAKA '' = Some ''14'' \<and> get_city_name ''14'' = Some ''Dhaka''
   \<and> Option.bind (get_city_id ''  DHAKA '') get_city_name = Some ''Dhaka''"
proof -
  have c: "(''13'', ''Cox's Bazar'') \<in> set CITY_ID_MAP"
    by (simp add: CITY_ID_MAP_def)
  have m: "(''14'', ''Dhaka'') \<in> set CITY_ID_MAP"
    by (simp add: CITY_ID_MAP_def)
  have k: "strip (lower ''  DHAKA '') = lower ''Dhaka''"
    by (simp add: strip_def lower_def char_lower_def py_isupper_def py_isspace_def)
  from get_city_name_inverts_get_city_id [OF c] get_city_name_inverts_get_city_id [OF m] k
  show ?thesis
    by blast
qed

section \<open>The query builder\<close>

lemma get_city_id_None:
  "get_city_id s = None \<longleftrightarrow>
     s = [] \<or> (\<forall>city \<in> set CITY_ID_MAP. lower (snd city) \<noteq> strip (lower s))"
  by (simp add: get_city_id_def city_id_loop_None)

text \<open>
  C1. The query string holds the three range segments after the keys \<open>qAge\<close>,
  \<open>Salary\<close> and \<open>experience\<close>. For every filter set, whose range endpoints are not
  negative, each segment is the empty string when both endpoints are zero, and is the
  decimal start, a slash and the decimal end when at least one endpoint is not zero.
\<close>

theorem range_segment_encoding:
  "(\<exists>pre post. build_search_url a =
      pre @ ''&qAge='' @ age_range a @ ''&Salary='' @ salary_range a
        @ ''&experience='' @ experience_range a @ ''&gender='' @ post)
   \<and> (age_start a = 0 \<and> age_end a = 0 \<longrightarrow> age_range a = '''')
   \<and> (0 \<le> age_start a \<and> 0 \<le> age_end a \<and> (age_start a \<noteq> 0 \<or> age_end a \<noteq> 0) \<longrightarrow>
        age_range a = str_int (age_start a) @ ''/'' @ str_int (age_end a))
   \<and> (salary_start a = 0 \<and> salary_end a = 0 \<longrightarrow> salary_range a = '''')
   \<and> (0 \<le> salary_start a \<and> 0 \<le> salary_end a
        \<and> (salary_start a \<noteq> 0 \<or> salary_end a \<noteq> 0) \<longrightarrow>
        salary_range a = str_int (salary_start a) @ ''/'' @ str_int (salary_end a))
   \<and> (experience_start a = 0 \<and> experience_end a = 0 \<longrightarrow> experience_range a = '''')
   \<and> (0 \<le> experience_start a \<and> 0 \<le> experience_end a
        \<and> (experience_start a \<noteq> 0 \<or> experience_end a \<noteq> 0) \<longrightarrow>
        experience_range a
          = str_int (experience_start a) @ ''/'' @ str_int (experience_end a))"
proof -
  let ?pre = "API_BASE_URL @ ''/Jobs/api/JobSearch/GetJobSearch?'' @
     ''Icat=&industry=&category=&org=&jobNature=&Fcat=&'' @
     ''location='' @ location_param a @ ''&Qot=&'' @
     ''jobType='' @ quote_plus (job_type a) @ ''&'' @
     ''jobLevel='' @ quote_plus (job_level a) @ ''&'' @
     ''postedWithin='' @ posted_within a @ ''&deadline=&'' @
     ''keyword='' @ quote_plus (keyword a) @ ''&'' @
     ''pg='' @ str_int (page a)"
  let ?post = "gender a @ ''&MExp=&genderB=&MPostings=&MCat=&version=&'' @
     ''rpp='' @ str_int (results_per_page a) @ ''&Newspaper=&'' @
     ''armyp='' @ armyp a @ ''&QDisablePerson=&pwd=&'' @
     ''workplace='' @ workplace a @ ''&'' @
     ''facilitiesForPWD='' @ facilities_for_pwd a @ ''&'' @
     ''SaveFilterList=&UserFilterName=&HUserFilterName=&earlyJobAccess=&'' @
     ''isPro='' @ str_int (is_pro a) @ ''&'' @
     ''ToggleJobs='' @ (if toggle_jobs a then ''true'' else ''false'') @ ''&'' @
     ''isFresher='' @ (if is_fresher a then ''true'' else ''false'')"
  have "build_search_url a =
      ?pre @ ''&qAge='' @ age_range a @ ''&Salary='' @ salary_range a
        @ ''&experience='' @ experience_range a @ ''&gender='' @ ?post"
    by (simp add: build_search_url_def)
  then have url: "\<exists>pre post. build_search_url a =
      pre @ ''&qAge='' @ age_range a @ ''&Salary='' @ salary_range a
        @ ''&experience='' @ experience_range a @ ''&gender='' @ post"
    by blast
  have age: "age_range a = str_int (age_start a) @ ''/'' @ str_int (age_end a)"
    if "0 \<le> age_start a" "0 \<le> age_end a" "age_start a \<noteq> 0 \<or> age_end a \<noteq> 0"
    using that by (auto simp: age_range_def)
  have salary: "salary_range a = str_int (salary_start a) @ ''/'' @ str_int (salary_end a)"
    if "0 \<le> salary_start a" "0 \<le> salary_end a" "salary_start a \<noteq> 0 \<or> salary_end a \<noteq> 0"
    using that by (auto simp: salary_range_def)
  have experience: "experience_range a
      = str_int (experience_start a) @ ''/'' @ str_int (experience_end a)"
    if "0 \<le> experience_start a" "0 \<le> experience_end a"
      "experience_start a \<noteq> 0 \<or> experience_end a \<noteq> 0"
    using that by (auto simp: experience_range_def)
  have zero: "age_start a = 0 \<and> age_end a = 0 \<longrightarrow> age_range a = ''''"
    "salary_start a = 0 \<and> salary_end a = 0 \<longrightarrow> salary_range a = ''''"
    "experience_start a = 0 \<and> experience_end a = 0 \<longrightarrow> experience_range a = ''''"
    by (simp_all add: age_range_def salary_range_def experience_range_def)
  from url zero age salary experience show ?thesis
    by blast
qed

theorem range_segment_encoding_witness:
  "age_range ((default_args ''nurse'')\<lparr>age_start := 18, age_end := 0\<rparr>) = ''18/0''
   \<and> salary_range ((default_args ''nurse'')\<lparr>salary_start := 0, salary_end := 0\<rparr>) = ''''
   \<and> experience_range ((default_args ''nurse'')\<lparr>experience_start := 2, experience_end := 5\<rparr>)
       = ''2/5''"
  using range_segment_encoding [of "(default_args ''nurse'')\<lparr>age_start := 18, age_end := 0\<rparr>"]
    range_segment_encoding [of "(default_args ''nurse'')\<lparr>salary_start := 0, salary_end := 0\<rparr>"]
    range_segment_encoding [of "(default_args ''nurse'')\<lparr>experience_start := 2, experience_end := 5\<rparr>"]
  by (simp add: default_args_def str_int_def str_nat.simps digit_char_def)

text \<open>
  The signature takes any integer. The test of \<open>build_search_url\<close> is \<open>> 0\<close>, so a pair
  of endpoints with none positive is encoded as the empty segment.
\<close>

lemma range_segment_no_positive_endpoint:
  "age_start a \<le> 0 \<and> age_end a \<le> 0 \<Longrightarrow> age_range a = ''''"
  "salary_start a \<le> 0 \<and> salary_end a \<le> 0 \<Longrightarrow> salary_range a = ''''"
  "experience_start a \<le> 0 \<and> experience_end a \<le> 0 \<Longrightarrow> experience_range a = ''''"
  by (simp_all add: age_range_def salary_range_def experience_range_def)

text \<open>
  C8. A location that is empty, or that is the name of no entry of the index (compared
  as \<open>get_city_id\<close> compares, lowered and stripped), is encoded as the empty string: the
  URL begins with the fixed fields up to \<open>location=&Qot=&\<close>. \<open>build_search_url\<close> has
  no failing branch, so it returns a URL for such a location as for any other.
\<close>

theorem unknown_location_encodes_empty:
  assumes "search_args.location a = []
    \<or> (\<forall>city \<in> set CITY_ID_MAP. lower (snd city) \<noteq> strip (lower (search_args.location a)))"
  shows "location_param a = ''''
    \<and> prefix ''https://api.bdjobs.com/Jobs/api/JobSearch/GetJobSearch?Icat=&industry=&category=&org=&jobNature=&Fcat=&location=&Qot=&''
        (build_search_url a)"
proof -
  have "location_id a = None"
    using assms by (auto simp: location_id_def get_city_id_None)
  then have p: "location_param a = ''''"
    by (simp add: location_param_def)
  then show ?thesis
    by (simp add: build_search_url_def API_BASE_URL_def)
qed

theorem unknown_location_encodes_empty_witness:
  "location_param ((default_args ''nurse'')\<lparr>location := ''Atlantis''\<rparr>) = ''''
   \<and> location_param (default_args ''nurse'') = ''''
   \<and> prefix ''https://api.bdjobs.com/Jobs/api/JobSearch/GetJobSearch?Icat=&industry=&category=&org=&jobNature=&Fcat=&location=&Qot=&''
        (build_search_url ((default_args ''nurse'')\<lparr>location := ''Atlantis''\<rparr>))"
proof -
  have u: "\<forall>city \<in> set CITY_ID_MAP. lower (snd city) \<noteq> strip (lower ''Atlantis'')"
    by (simp add: CITY_ID_MAP_def strip_def lower_def char_lower_def py_isupper_def
        py_isspace_def)
  have e: "search_args.location (default_args ''nurse'') = []"
    by (simp add: default_args_def)
  show ?thesis
    using unknown_location_encodes_empty [of "(default_args ''nurse'')\<lparr>location := ''Atlantis''\<rparr>"]
      unknown_location_encodes_empty [of "default_args ''nurse''"] u e
    by simp
qed

section \<open>The result page\<close>

lemma eq_ignore_case_lower: "eq_ignore_case s t \<longleftrightarrow> lower s = lower t"
  by (auto simp: eq_ignore_case_def lower_def list_all2_conv_all_nth list_eq_iff_nth_eq)

lemma lower_success: "lower ''success'' = ''success''"
  by (simp add: lower_def char_lower_def py_isupper_def)

text \<open>
  C2. \<open>is_success\<close> holds exactly when the status code is \<open>"1"\<close> and the message equals
  \<open>"success"\<close> case-insensitively; a status code other than \<open>"1"\<close> makes it false
  whatever the message, and a message that is not \<open>"success"\<close> up to case makes it
  false whatever the status code.
\<close>

theorem is_success_iff:
  "(is_success r \<longleftrightarrow> statuscode r = ''1'' \<and> eq_ignore_case (message r) ''success'')
   \<and> (statuscode r \<noteq> ''1'' \<longrightarrow> \<not> is_success r)
   \<and> (\<not> eq_ignore_case (message r) ''success'' \<longrightarrow> \<not> is_success r)"
  by (simp add: is_success_def eq_ignore_case_lower lower_success)

theorem is_success_iff_witness:
  "is_success (example_page ''SucCESS'' ''1'')
   \<and> \<not> is_success (example_page ''success'' ''0'')
   \<and> \<not> is_success (example_page ''successful'' ''1'')"
proof -
  have a: "eq_ignore_case ''SucCESS'' ''success''"
    by (simp add: eq_ignore_case_def char_lower_def py_isupper_def)
  have b: "\<not> eq_ignore_case ''successful'' ''success''"
    by (simp add: eq_ignore_case_def)
  show ?thesis
    using is_success_iff [of "example_page ''SucCESS'' ''1''"]
      is_success_iff [of "example_page ''success'' ''0''"]
      is_success_iff [of "example_page ''successful'' ''1''"] a b
    by (simp add: example_page_def)
qed

section \<open>The checks of the orchestrator\<close>

lemma dropWhile_all: "(\<forall>c \<in> set (dropWhile p s). p c) \<longleftrightarrow> (\<forall>c \<in> set s. p c)"
  by (induction s) auto

lemma strip_empty_iff: "strip s = [] \<longleftrightarrow> (\<forall>c \<in> set s. py_isspace c)"
  by (simp add: strip_def dropWhile_eq_Nil_conv dropWhile_all)

text \<open>
  C3. When the keyword is empty or all whitespace, or the page is below 1, or the page
  size is outside 1 to 100, \<open>search_jobs\<close> raises a \<open>ValueError\<close> with the message of
  the first check that fails, in the order keyword, page, page size. The list of
  requests sent is returned as it was, and the outcome is the same for every server
  and library behaviour: nothing is requested before the checks.
\<close>

theorem invalid_arguments_rejected_before_request:
  assumes "keyword a = [] \<or> (\<forall>c \<in> set (keyword a). py_isspace c) \<or> page a < 1
    \<or> results_per_page a < 1 \<or> 100 < results_per_page a"
  shows "search_jobs P a sent =
     (Inl (ValueError
        (if keyword a = [] \<or> (\<forall>c \<in> set (keyword a). py_isspace c)
         then ''Keyword parameter is required and cannot be empty''
         else if page a < 1 then ''Page number must be >= 1''
         else ''Results per page must be between 1 and 100'')), sent)"
  using assms by (auto simp: search_jobs_def strip_empty_iff)

theorem invalid_arguments_rejected_before_request_witness:
  "search_jobs (example_platform (\<lambda>n url. Raises RequestError)) (default_args '''') []
     = (Inl (ValueError ''Keyword parameter is required and cannot be empty''), [])
   \<and> search_jobs (example_platform (\<lambda>n url. Raises RequestError)) (default_args ''   '') []
     = (Inl (ValueError ''Keyword parameter is required and cannot be empty''), [])
   \<and> search_jobs (example_platform (\<lambda>n url. Raises RequestError))
       ((default_args ''nurse'')\<lparr>page := 0\<rparr>) []
     = (Inl (ValueError ''Page number must be >= 1''), [])
   \<and> search_jobs (example_platform (\<lambda>n url. Raises RequestError))
       ((default_args ''nurse'')\<lparr>page := - 1\<rparr>) []
     = (Inl (ValueError ''Page number must be >= 1''), [])
   \<and> search_jobs (example_platform (\<lambda>n url. Raises RequestError))
       ((default_args ''nurse'')\<lparr>results_per_page := 0\<rparr>) []
     = (Inl (ValueError ''Results per page must be between 1 and 100''), [])
   \<and> search_jobs (example_platform (\<lambda>n url. Raises RequestError))
       ((default_args ''nurse'')\<lparr>results_per_page := 101\<rparr>) []
     = (Inl (ValueError ''Results per page must be between 1 and 100''), [])"
proof -
  let ?P = "example_platform (\<lambda>n url. Raises RequestError)"
  have k: "\<not> (\<forall>c \<in> set ''nurse''. py_isspace c)" "\<forall>c \<in> set ''   ''. py_isspace c"
    by (simp_all add: py_isspace_def)
  show ?thesis
    using invalid_arguments_rejected_before_request [of "default_args ''''" ?P "[]"]
      invalid_arguments_rejected_before_request [of "default_args ''   ''" ?P "[]"]
      invalid_arguments_rejected_before_request
        [of "(default_args ''nurse'')\<lparr>page := 0\<rparr>" ?P "[]"]
      invalid_arguments_rejected_before_request
        [of "(default_args ''nurse'')\<lparr>page := - 1\<rparr>" ?P "[]"]
      invalid_arguments_rejected_before_request
        [of "(default_args ''nurse'')\<lparr>results_per_page := 0\<rparr>" ?P "[]"]
      invalid_arguments_rejected_before_request
        [of "(default_args ''nurse'')\<lparr>results_per_page := 101\<rparr>" ?P "[]"]
      k
    by (simp add: default_args_def)
qed

section \<open>The transport\<close>

lemma signals_api_error_JObj:
  "signals_api_error (JObj kv) \<longleftrightarrow>
     truthy (dict_get kv ''statuscode'') \<and> dict_get kv ''statuscode'' \<noteq> JStr ''1''"
  by (simp add: signals_api_error_def dict_get_def split: option.split)

lemma api_get_body_raises:
  "respond P (length sent) url = Raises e \<Longrightarrow>
     api_get_body P url sent = (Inl (HTTPError e), sent @ [url])"
  by (simp add: api_get_body_def)

lemma api_get_body_invalid_json:
  "respond P (length sent) url = Body (Inl m) \<Longrightarrow>
     api_get_body P url sent
       = (Inl (ValueError (''API returned invalid JSON: '' @ m)), sent @ [url])"
  by (simp add: api_get_body_def)

lemma api_get_body_api_error:
  assumes "respond P (length sent) url = Body (Inr (JObj kv))"
    and "signals_api_error (JObj kv)"
  shows "api_get_body P url sent =
     (Inl (RuntimeError (''API error: ''
        @ py_str P (dict_get_default kv ''message'' (JStr ''Unknown API error'')))),
      sent @ [url])"
  using assms by (simp add: api_get_body_def signals_api_error_JObj Let_def)

lemma api_get_body_returns:
  assumes "respond P (length sent) url = Body (Inr d)" and "\<not> signals_api_error d"
  shows "api_get_body P url sent = (Inr d, sent @ [url])"
  using assms
  by (cases d) (simp_all add: api_get_body_def signals_api_error_JObj Let_def)

lemma api_get_body_not_retried:
  assumes "respond P (length sent) url = Body b"
  shows "case fst (api_get_body P url sent) of
           Inl e \<Rightarrow> \<not> retry_if_exception_type e | Inr d \<Rightarrow> True"
proof (cases b)
  case (Inl m)
  with assms show ?thesis by (simp add: api_get_body_invalid_json)
next
  case (Inr d)
  show ?thesis
  proof (cases "signals_api_error d")
    case True
    then obtain kv where "d = JObj kv"
      by (cases d) (simp_all add: signals_api_error_def)
    with True Inr assms show ?thesis by (simp add: api_get_body_api_error)
  next
    case False
    with Inr assms show ?thesis by (simp add: api_get_body_returns)
  qed
qed

lemma retrying_conclusive:
  assumes "case fst (f s) of Inl e \<Rightarrow> \<not> retry_if e | Inr v \<Rightarrow> True"
  shows "retrying n retry_if f k s = f s"
  using assms
  by (subst retrying.simps) (auto split: prod.splits sum.splits)

lemma retrying_again:
  assumes "f s = (Inl e, s')" and "retry_if e" and "k < n"
  shows "retrying n retry_if f k s = retrying n retry_if f (Suc k) s'"
  using assms by (subst retrying.simps) simp

lemma retrying_stop:
  assumes "f s = (Inl e, s')" and "retry_if e" and "n \<le> k"
  shows "retrying n retry_if f k s = (Inl e, s')"
  using assms by (subst retrying.simps) simp

text \<open>After \<open>j\<close> attempts that raise an httpx error, an attempt that gets a body ends
  the loop with the outcome of that attempt, provided the attempts are within the
  limit.\<close>

lemma retrying_until_body:
  assumes "\<forall>i<j. \<exists>e. respond P (length sent + i) url = Raises e"
    and "respond P (length sent + j) url = Body b"
    and "k + j \<le> n"
  shows "retrying n retry_if_exception_type (api_get_body P url) k sent
         = api_get_body P url (sent @ replicate j url)"
  using assms
proof (induction j arbitrary: k sent)
  case 0
  then have "respond P (length sent) url = Body b" by simp
  then show ?case
    using api_get_body_not_retried retrying_conclusive by (metis append_Nil2 replicate_0)
next
  case (Suc j)
  from Suc.prems(1) obtain e where e: "respond P (length sent) url = Raises e"
    by force
  have step: "retrying n retry_if_exception_type (api_get_body P url) k sent
      = retrying n retry_if_exception_type (api_get_body P url) (Suc k) (sent @ [url])"
    using Suc.prems(3)
    by (intro retrying_again [where f = "api_get_body P url" and s = sent and e = "HTTPError e"])
      (simp_all add: api_get_body_raises [OF e])
  have "\<forall>i<j. \<exists>e. respond P (length (sent @ [url]) + i) url = Raises e"
    using Suc.prems(1) by (metis Suc_less_eq add_Suc_shift length_append_singleton)
  moreover have "respond P (length (sent @ [url]) + j) url = Body b"
    using Suc.prems(2) by simp
  moreover have "Suc k + j \<le> n"
    using Suc.prems(3) by simp
  ultimately have "retrying n retry_if_exception_type (api_get_body P url) (Suc k) (sent @ [url])
      = api_get_body P url ((sent @ [url]) @ replicate j url)"
    by (rule Suc.IH)
  with step show ?case
    by (simp add: replicate_app_Cons_same)
qed

text \<open>When every attempt up to the limit raises an httpx error, the loop stops at the
  limit and raises the error of the last attempt.\<close>

lemma retrying_all_raise:
  assumes "\<forall>i<m. \<exists>e. respond P (length sent + i) url = Raises e"
    and "respond P (length sent + m) url = Raises e"
    and "k + m = n"
  shows "retrying n retry_if_exception_type (api_get_body P url) k sent
         = (Inl (HTTPError e), sent @ replicate (Suc m) url)"
  using assms
proof (induction m arbitrary: k sent)
  case 0
  then have "respond P (length sent) url = Raises e" "n \<le> k" by simp_all
  then show ?case
    by (intro retrying_stop [where f = "api_get_body P url" and s = sent and e = "HTTPError e", simplified])
      (simp_all add: api_get_body_raises)
next
  case (Suc m)
  from Suc.prems(1) obtain e' where e': "respond P (length sent) url = Raises e'"
    by force
  have step: "retrying n retry_if_exception_type (api_get_body P url) k sent
      = retrying n retry_if_exception_type (api_get_body P url) (Suc k) (sent @ [url])"
    using Suc.prems(3)
    by (intro retrying_again [where f = "api_get_body P url" and s = sent and e = "HTTPError e'"])
      (simp_all add: api_get_body_raises [OF e'])
  have "\<forall>i<m. \<exists>e. respond P (length (sent @ [url]) + i) url = Raises e"
    using Suc.prems(1) by (metis Suc_less_eq add_Suc_shift length_append_singleton)
  moreover have "respond P (length (sent @ [url]) + m) url = Raises e"
    using Suc.prems(2) by simp
  moreover have "Suc k + m = n"
    using Suc.prems(3) by simp
  ultimately have "retrying n retry_if_exception_type (api_get_body P url) (Suc k) (sent @ [url])
      = (Inl (HTTPError e), (sent @ [url]) @ replicate (Suc m) url)"
    by (rule Suc.IH)
  with step show ?case
    by (simp add: replicate_app_Cons_same)
qed

lemma api_get_until_body:
  assumes "j < MAX_RETRIES"
    and "\<forall>i<j. \<exists>e. respond P (length sent + i) url = Raises e"
    and "respond P (length sent + j) url = Body b"
  shows "api_get P url sent = api_get_body P url (sent @ replicate j url)"
  unfolding api_get_def using assms
  by (intro retrying_until_body [where b = b]) simp_all

lemma api_get_all_raise:
  assumes "\<forall>i<MAX_RETRIES. \<exists>e. respond P (length sent + i) url = Raises e"
    and "respond P (length sent + (MAX_RETRIES - 1)) url = Raises e"
  shows "api_get P url sent = (Inl (HTTPError e), sent @ replicate MAX_RETRIES url)"
proof -
  have "retrying MAX_RETRIES retry_if_exception_type (api_get_body P url) 1 sent
      = (Inl (HTTPError e), sent @ replicate (Suc (MAX_RETRIES - 1)) url)"
    using assms by (intro retrying_all_raise) (simp_all add: MAX_RETRIES_def)
  then show ?thesis
    by (simp add: api_get_def MAX_RETRIES_def)
qed

lemma valid_args_iff:
  "valid_args a \<longleftrightarrow>
     \<not> (keyword a = [] \<or> strip (keyword a) = [] \<or> page a < 1
        \<or> results_per_page a < 1 \<or> results_per_page a > 100)"
  by (auto simp: valid_args_def strip_empty_iff)

lemma search_jobs_valid:
  assumes "valid_args a"
  shows "search_jobs P a sent =
     (case api_get P (build_search_url a) sent of
        (Inl e, sent') \<Rightarrow> (Inl e, sent')
      | (Inr d, sent') \<Rightarrow>
          (case d of
             JObj kv \<Rightarrow>
               (case SearchResults_init P kv of
                  Some r \<Rightarrow> (Inr r, sent')
                | None \<Rightarrow>
                    (Inl (ValueError (''Invalid API response format: ''
                       @ str_validation_error P d)), sent'))
           | _ \<Rightarrow> (Inl (TypeError (str_type_error P d)), sent')))"
  using assms unfolding valid_args_iff
  by (simp add: search_jobs_def)

section \<open>Construction of the models\<close>

lemma required_str_field:
  "required d k (str_field b) = Some s \<longleftrightarrow>
     (\<exists>x. map_of d k = Some (JStr x) \<and> s = (if b then trim_ws x else x))"
  by (auto simp: required_def str_field_def split: option.splits json.splits)

lemma with_default_absent:
  "map_of d k = None \<Longrightarrow> with_default d k dflt validate = Some dflt"
  by (simp add: with_default_def)

lemma list_field_empty: "list_field validate (JArr []) = Some []"
  by (simp add: list_field_def)

lemma SearchResults_init_eq_Some:
  "SearchResults_init P d = Some r \<longleftrightarrow>
     required d ''message'' (str_field False) = Some (message r)
     \<and> required d ''statuscode'' (str_field False) = Some (statuscode r)
     \<and> with_default d ''data'' [] (list_field (model_field (SearchResult_init P)))
         = Some (data r)
     \<and> with_default d ''premiumData'' [] (list_field (model_field (SearchResult_init P)))
         = Some (premiumData r)
     \<and> required d ''common'' (model_field (CommonFilters_init P)) = Some (common r)"
  by (cases r) (auto simp: SearchResults_init_def bind_eq_Some_conv)

lemma CommonFilters_init_eq_Some:
  "CommonFilters_init P c = Some f \<longleftrightarrow>
     with_default c ''total_records_found'' 0 (lax_int P) = Some (total_records_found f)
     \<and> with_default c ''showd'' ''1'' (str_field False) = Some (showd f)
     \<and> with_default c ''totalpages'' 0 (lax_int P) = Some (totalpages f)
     \<and> with_default c ''total_vacancies'' 0 (lax_int P) = Some (total_vacancies f)"
  by (cases f) (auto simp: CommonFilters_init_def bind_eq_Some_conv)

lemma SearchResult_init_Jobid:
  assumes "SearchResult_init P d = Some r"
  shows "required d ''Jobid'' (str_field True) = Some (Jobid r)"
  using assms by (auto simp: SearchResult_init_def bind_eq_Some_conv)

text \<open>The summary object itself is a required field of the result page.\<close>

lemma summary_object_required:
  "map_of d ''common'' = None \<Longrightarrow> SearchResults_init P d = None"
  by (simp add: SearchResults_init_def required_def bind_eq_None_conv)

lemma required_eq_Some:
  "required d k validate = Some x \<longleftrightarrow> (\<exists>v. map_of d k = Some v \<and> validate v = Some x)"
  by (simp add: required_def split: option.split)

lemma with_default_eq_Some:
  "with_default d k dflt validate = Some x \<longleftrightarrow>
     (case map_of d k of None \<Rightarrow> x = dflt | Some v \<Rightarrow> validate v = Some x)"
  by (auto simp: with_default_def split: option.split)

lemma str_field_plain: "str_field False v = Some s \<longleftrightarrow> v = JStr s"
  by (cases v) (auto simp: str_field_def)

lemma model_field_eq_Some:
  "model_field construct v = Some x \<longleftrightarrow> (\<exists>c. v = JObj c \<and> construct c = Some x)"
  by (cases v) (auto simp: model_field_def)

text \<open>
  C6 (as amended). The construction of a result page is characterised field by field.
  It succeeds exactly when the message and the status code are strings, each sequence
  is absent or a list of listings, and the summary object is present and is itself
  constructed; an absent sequence is then the empty sequence, and a body without a
  sequence is constructed as the same body with an empty list under that key, so the
  absence is never an error. The summary object is constructed exactly when each of
  its keys that is present validates; a count that is missing from it is then zero. The
  summary object itself is required: a body without it is rejected.
\<close>

theorem absent_sequences_and_counts_default:
  "(SearchResults_init P d = Some r \<longleftrightarrow>
      map_of d ''message'' = Some (JStr (message r))
      \<and> map_of d ''statuscode'' = Some (JStr (statuscode r))
      \<and> (case map_of d ''data'' of
            None \<Rightarrow> data r = []
          | Some v \<Rightarrow> list_field (model_field (SearchResult_init P)) v = Some (data r))
      \<and> (case map_of d ''premiumData'' of
            None \<Rightarrow> premiumData r = []
          | Some v \<Rightarrow> list_field (model_field (SearchResult_init P)) v = Some (premiumData r))
      \<and> (\<exists>c. map_of d ''common'' = Some (JObj c) \<and> CommonFilters_init P c = Some (common r)))
   \<and> (CommonFilters_init P c = Some f \<longleftrightarrow>
      (case map_of c ''total_records_found'' of
         None \<Rightarrow> total_records_found f = 0
       | Some v \<Rightarrow> lax_int P v = Some (total_records_found f))
      \<and> (case map_of c ''showd'' of None \<Rightarrow> showd f = ''1'' | Some v \<Rightarrow> v = JStr (showd f))
      \<and> (case map_of c ''totalpages'' of
            None \<Rightarrow> totalpages f = 0
          | Some v \<Rightarrow> lax_int P v = Some (totalpages f))
      \<and> (case map_of c ''total_vacancies'' of
            None \<Rightarrow> total_vacancies f = 0
          | Some v \<Rightarrow> lax_int P v = Some (total_vacancies f)))
   \<and> (map_of d ''data'' = None \<longrightarrow>
        SearchResults_init P d = SearchResults_init P ((''data'', JArr []) # d))
   \<and> (map_of d ''premiumData'' = None \<longrightarrow>
        SearchResults_init P d = SearchResults_init P ((''premiumData'', JArr []) # d))
   \<and> (map_of d ''common'' = None \<longrightarrow> SearchResults_init P d = None)"
proof (intro conjI impI)
  show "SearchResults_init P d = Some r \<longleftrightarrow>
      map_of d ''message'' = Some (JStr (message r))
      \<and> map_of d ''statuscode'' = Some (JStr (statuscode r))
      \<and> (case map_of d ''data'' of
            None \<Rightarrow> data r = []
          | Some v \<Rightarrow> list_field (model_field (SearchResult_init P)) v = Some (data r))
      \<and> (case map_of d ''premiumData'' of
            None \<Rightarrow> premiumData r = []
          | Some v \<Rightarrow> list_field (model_field (SearchResult_init P)) v = Some (premiumData r))
      \<and> (\<exists>c. map_of d ''common'' = Some (JObj c) \<and> CommonFilters_init P c = Some (common r))"
    unfolding SearchResults_init_eq_Some required_eq_Some with_default_eq_Some
      str_field_plain model_field_eq_Some
    by auto
next
  show "CommonFilters_init P c = Some f \<longleftrightarrow>
      (case map_of c ''total_records_found'' of
         None \<Rightarrow> total_records_found f = 0
       | Some v \<Rightarrow> lax_int P v = Some (total_records_found f))
      \<and> (case map_of c ''showd'' of None \<Rightarrow> showd f = ''1'' | Some v \<Rightarrow> v = JStr (showd f))
      \<and> (case map_of c ''totalpages'' of
            None \<Rightarrow> totalpages f = 0
          | Some v \<Rightarrow> lax_int P v = Some (totalpages f))
      \<and> (case map_of c ''total_vacancies'' of
            None \<Rightarrow> total_vacancies f = 0
          | Some v \<Rightarrow> lax_int P v = Some (total_vacancies f))"
    unfolding CommonFilters_init_eq_Some with_default_eq_Some str_field_plain
    by (auto split: option.splits)
next
  assume "map_of d ''data'' = None"
  then show "SearchResults_init P d = SearchResults_init P ((''data'', JArr []) # d)"
    by (simp add: SearchResults_init_def required_def with_default_def list_field_empty)
next
  assume "map_of d ''premiumData'' = None"
  then show "SearchResults_init P d = SearchResults_init P ((''premiumData'', JArr []) # d)"
    by (simp add: SearchResults_init_def required_def with_default_def list_field_empty)
next
  assume "map_of d ''common'' = None"
  then show "SearchResults_init P d = None"
    by (rule summary_object_required)
qed

theorem absent_sequences_and_counts_default_witness:
  "SearchResults_init (example_platform (\<lambda>n url. Raises RequestError))
     [(''message'', JStr ''Success''), (''statuscode'', JStr ''1''),
      (''common'', JObj [(''total_records_found'', JInt 37), (''totalpages'', JInt 8)])]
   = Some \<lparr>message = ''Success'', statuscode = ''1'', data = [], premiumData = [],
       common = \<lparr>total_records_found = 37, showd = ''1'', totalpages = 8,
                 total_vacancies = 0\<rparr>\<rparr>
   \<and> SearchResults_init (example_platform (\<lambda>n url. Raises RequestError))
     [(''message'', JStr ''Success''), (''statuscode'', JStr ''1''), (''common'', JObj [])]
   = Some (example_page ''Success'' ''1'')
   \<and> SearchResults_init (example_platform (\<lambda>n url. Raises RequestError))
     [(''data'', JArr []), (''message'', JStr ''Success''), (''statuscode'', JStr ''1''),
      (''common'', JObj [])]
   = Some (example_page ''Success'' ''1'')"
proof -
  let ?P = "example_platform (\<lambda>n url. Raises RequestError)"
  let ?c = "[(''total_records_found'', JInt 37), (''totalpages'', JInt 8)]"
  let ?f = "\<lparr>total_records_found = 37, showd = ''1'', totalpages = 8, total_vacancies = 0\<rparr>"
  let ?d = "[(''message'', JStr ''Success''), (''statuscode'', JStr ''1''),
      (''common'', JObj ?c)]"
  let ?r = "\<lparr>message = ''Success'', statuscode = ''1'', data = [], premiumData = [],
      common = ?f\<rparr> :: string SearchResults"
  let ?g = "\<lparr>total_records_found = 0, showd = ''1'', totalpages = 0, total_vacancies = 0\<rparr>"
  let ?e = "[(''message'', JStr ''Success''), (''statuscode'', JStr ''1''),
      (''common'', JObj [])]"
  let ?s = "\<lparr>message = ''Success'', statuscode = ''1'', data = [], premiumData = [],
      common = ?g\<rparr> :: string SearchResults"
  note t = absent_sequences_and_counts_default [of ?P ?d ?r ?c ?f]
  note u = absent_sequences_and_counts_default [of ?P ?e ?s "[]" ?g]
  have cf: "CommonFilters_init ?P ?c = Some ?f"
    unfolding t [THEN conjunct2, THEN conjunct1] by (simp add: example_platform_def)
  have 1: "SearchResults_init ?P ?d = Some ?r"
    unfolding t [THEN conjunct1] using cf by simp
  have cg: "CommonFilters_init ?P [] = Some ?g"
    unfolding u [THEN conjunct2, THEN conjunct1] by simp
  have 2: "SearchResults_init ?P ?e = Some ?s"
    unfolding u [THEN conjunct1] using cg by simp
  have "map_of ?e ''data'' = None"
    by simp
  with u have 3: "SearchResults_init ?P ?e = SearchResults_init ?P ((''data'', JArr []) # ?e)"
    by blast
  from 1 2 3 show ?thesis
    by (simp add: example_page_def)
qed

text \<open>
  The claim as it is written fails on a body that has no summary object: its counts are
  missing, and the construction does not give a page with zero counts but fails.
\<close>

theorem missing_summary_object_counterexample:
  "SearchResults_init (example_platform (\<lambda>n url. Raises RequestError))
     [(''message'', JStr ''Success''), (''statuscode'', JStr ''1''), (''data'', JArr []),
      (''premiumData'', JArr [])] = None
   \<and> SearchResults_init (example_platform (\<lambda>n url. Raises RequestError))
     [(''message'', JStr ''Success''), (''statuscode'', JStr ''1''), (''data'', JArr []),
      (''premiumData'', JArr []), (''common'', JObj [])]
     = Some (example_page ''Success'' ''1'')"
  by (simp add: SearchResults_init_def required_def with_default_def str_field_def
      model_field_def list_field_def CommonFilters_init_def example_page_def)

text \<open>
  C7 (as amended). A listing is constructed only from a dictionary whose \<open>Jobid\<close> is a
  string, and its identifier is that string trimmed; the string may be empty. The job
  URL is the base address, \<open>/jobs/details/\<close> and the identifier: listings with the same
  identifier have the same URL, and the URL determines the identifier. The record of a
  listing has no field for the URL.
\<close>

theorem listing_identifier_and_url:
  "(SearchResult_init P d = Some r \<longrightarrow>
      (\<exists>s. map_of d ''Jobid'' = Some (JStr s) \<and> Jobid r = trim_ws s))
   \<and> get_job_url r = BASE_URL @ ''/jobs/details/'' @ Jobid r
   \<and> (get_job_url r = get_job_url r' \<longleftrightarrow> Jobid r = Jobid r')"
proof -
  have "\<exists>s. map_of d ''Jobid'' = Some (JStr s) \<and> Jobid r = trim_ws s"
    if "SearchResult_init P d = Some r"
    using SearchResult_init_Jobid [OF that] by (simp add: required_str_field)
  then show ?thesis
    by (simp add: get_job_url_def)
qed

theorem listing_identifier_and_url_witness:
  "map_option Jobid (SearchResult_init (example_platform (\<lambda>n url. Raises RequestError))
     [(''Jobid'', JStr '' 1290411 ''), (''jobTitle'', JStr ''Nurse''),
      (''companyName'', JStr ''Clinic'')]) = Some ''1290411''
   \<and> map_option get_job_url (SearchResult_init (example_platform (\<lambda>n url. Raises RequestError))
     [(''Jobid'', JStr '' 1290411 ''), (''jobTitle'', JStr ''Nurse''),
      (''companyName'', JStr ''Clinic'')]) = Some ''https://bdjobs.com/jobs/details/1290411''"
proof -
  let ?P = "example_platform (\<lambda>n url. Raises RequestError)"
  let ?d = "[(''Jobid'', JStr '' 1290411 ''), (''jobTitle'', JStr ''Nurse''),
      (''companyName'', JStr ''Clinic'')]"
  obtain r where r: "SearchResult_init ?P ?d = Some r"
    by (simp add: SearchResult_init_def required_def with_default_def str_field_def)
  have t: "trim_ws '' 1290411 '' = ''1290411''"
    by (simp add: trim_ws_def is_white_space_def)
  from listing_identifier_and_url [of ?P ?d r r] r t
  have "Jobid r = ''1290411''" "get_job_url r = BASE_URL @ ''/jobs/details/'' @ Jobid r"
    by simp_all
  with r show ?thesis
    by (simp add: BASE_URL_def)
qed

text \<open>
  The claim as it is written fails on the identifier: a listing is constructed from an
  empty \<open>Jobid\<close>, and from one of whitespace only, and its identifier is then empty.
\<close>

theorem listing_identifier_nonempty_counterexample:
  "map_option Jobid (SearchResult_init (example_platform (\<lambda>n url. Raises RequestError))
     [(''Jobid'', JStr ''''), (''jobTitle'', JStr ''Nurse''),
      (''companyName'', JStr ''Clinic'')]) = Some ''''
   \<and> map_option Jobid (SearchResult_init (example_platform (\<lambda>n url. Raises RequestError))
     [(''Jobid'', JStr ''  ''), (''jobTitle'', JStr ''Nurse''),
      (''companyName'', JStr ''Clinic'')]) = Some ''''
   \<and> map_option get_job_url (SearchResult_init (example_platform (\<lambda>n url. Raises RequestError))
     [(''Jobid'', JStr ''''), (''jobTitle'', JStr ''Nurse''),
      (''companyName'', JStr ''Clinic'')]) = Some ''https://bdjobs.com/jobs/details/''"
  by (simp add: SearchResult_init_def required_def with_default_def str_field_def
      trim_ws_def is_white_space_def get_job_url_def BASE_URL_def)

section \<open>Retries and errors of a search\<close>

lemma replicate_snoc: "(xs @ replicate j x) @ [x] = xs @ replicate (Suc j) x"
  by (simp add: replicate_append_same)

text \<open>
  C4. Any number of attempts below the limit that raise an httpx error (a timeout, a
  network error) are retried: the first attempt that gets a body decides the call,
  which returns the decoded body when it signals no API error. In particular timeouts
  on the first \<open>MAX_RETRIES - 1\<close> attempts and a body on the last give the body. A body
  that is not JSON, or that signals an API error, ends the call at that attempt with a
  \<open>ValueError\<close> or a \<open>RuntimeError\<close>: no request follows it. When all \<open>MAX_RETRIES\<close>
  attempts raise, the call raises the error of the last attempt, of the same kind,
  after exactly \<open>MAX_RETRIES\<close> requests. The last two lines state the two cases of
  the claim for \<open>search_jobs\<close>.
\<close>

theorem api_get_retry_policy:
  "(j < MAX_RETRIES \<and> (\<forall>i<j. \<exists>x. respond P (length sent + i) url = Raises x)
      \<and> respond P (length sent + j) url = Body (Inr d) \<and> \<not> signals_api_error d \<longrightarrow>
      api_get P url sent = (Inr d, sent @ replicate (Suc j) url))
   \<and> ((\<forall>i<MAX_RETRIES. \<exists>x. respond P (length sent + i) url = Raises x)
      \<and> respond P (length sent + (MAX_RETRIES - 1)) url = Raises e \<longrightarrow>
      api_get P url sent = (Inl (HTTPError e), sent @ replicate MAX_RETRIES url))
   \<and> (j < MAX_RETRIES \<and> (\<forall>i<j. \<exists>x. respond P (length sent + i) url = Raises x)
      \<and> respond P (length sent + j) url = Body (Inl m) \<longrightarrow>
      api_get P url sent
        = (Inl (ValueError (''API returned invalid JSON: '' @ m)), sent @ replicate (Suc j) url))
   \<and> (j < MAX_RETRIES \<and> (\<forall>i<j. \<exists>x. respond P (length sent + i) url = Raises x)
      \<and> respond P (length sent + j) url = Body (Inr d) \<and> signals_api_error d \<longrightarrow>
      (\<exists>msg. api_get P url sent = (Inl (RuntimeError msg), sent @ replicate (Suc j) url)))
   \<and> (valid_args a \<and> j < MAX_RETRIES
      \<and> (\<forall>i<j. \<exists>x. respond P (length sent + i) (build_search_url a) = Raises x)
      \<and> respond P (length sent + j) (build_search_url a) = Body (Inr (JObj kv))
      \<and> \<not> signals_api_error (JObj kv) \<and> SearchResults_init P kv = Some r \<longrightarrow>
      search_jobs P a sent = (Inr r, sent @ replicate (Suc j) (build_search_url a)))
   \<and> (valid_args a
      \<and> (\<forall>i<MAX_RETRIES. \<exists>x. respond P (length sent + i) (build_search_url a) = Raises x)
      \<and> respond P (length sent + (MAX_RETRIES - 1)) (build_search_url a) = Raises e \<longrightarrow>
      search_jobs P a sent
        = (Inl (HTTPError e), sent @ replicate MAX_RETRIES (build_search_url a)))"
proof (intro conjI impI)
  assume h: "j < MAX_RETRIES \<and> (\<forall>i<j. \<exists>x. respond P (length sent + i) url = Raises x)
      \<and> respond P (length sent + j) url = Body (Inr d) \<and> \<not> signals_api_error d"
  then have "api_get P url sent = api_get_body P url (sent @ replicate j url)"
    by (intro api_get_until_body [where b = "Inr d"]) simp_all
  also have "\<dots> = (Inr d, (sent @ replicate j url) @ [url])"
    using h by (intro api_get_body_returns) simp_all
  finally show "api_get P url sent = (Inr d, sent @ replicate (Suc j) url)"
    by (simp only: replicate_snoc)
next
  assume "(\<forall>i<MAX_RETRIES. \<exists>x. respond P (length sent + i) url = Raises x)
      \<and> respond P (length sent + (MAX_RETRIES - 1)) url = Raises e"
  then show "api_get P url sent = (Inl (HTTPError e), sent @ replicate MAX_RETRIES url)"
    by (intro api_get_all_raise) simp_all
next
  assume h: "j < MAX_RETRIES \<and> (\<forall>i<j. \<exists>x. respond P (length sent + i) url = Raises x)
      \<and> respond P (length sent + j) url = Body (Inl m)"
  then have "api_get P url sent = api_get_body P url (sent @ replicate j url)"
    by (intro api_get_until_body [where b = "Inl m"]) simp_all
  also have "\<dots> = (Inl (ValueError (''API returned invalid JSON: '' @ m)),
      (sent @ replicate j url) @ [url])"
    using h by (intro api_get_body_invalid_json) simp_all
  finally show "api_get P url sent
        = (Inl (ValueError (''API returned invalid JSON: '' @ m)), sent @ replicate (Suc j) url)"
    by (simp only: replicate_snoc)
next
  assume h: "j < MAX_RETRIES \<and> (\<forall>i<j. \<exists>x. respond P (length sent + i) url = Raises x)
      \<and> respond P (length sent + j) url = Body (Inr d) \<and> signals_api_error d"
  then obtain kv' where d: "d = JObj kv'"
    by (cases d) (simp_all add: signals_api_error_def)
  from h have "api_get P url sent = api_get_body P url (sent @ replicate j url)"
    by (intro api_get_until_body [where b = "Inr d"]) simp_all
  also have "\<dots> = (Inl (RuntimeError (''API error: ''
        @ py_str P (dict_get_default kv' ''message'' (JStr ''Unknown API error'')))),
      (sent @ replicate j url) @ [url])"
    using h d by (intro api_get_body_api_error) simp_all
  finally show "\<exists>msg. api_get P url sent
      = (Inl (RuntimeError msg), sent @ replicate (Suc j) url)"
    by (simp only: replicate_snoc) blast
next
  let ?url = "build_search_url a"
  assume h: "valid_args a \<and> j < MAX_RETRIES
      \<and> (\<forall>i<j. \<exists>x. respond P (length sent + i) ?url = Raises x)
      \<and> respond P (length sent + j) ?url = Body (Inr (JObj kv))
      \<and> \<not> signals_api_error (JObj kv) \<and> SearchResults_init P kv = Some r"
  then have "api_get P ?url sent = api_get_body P ?url (sent @ replicate j ?url)"
    by (intro api_get_until_body [where b = "Inr (JObj kv)"]) simp_all
  also have "\<dots> = (Inr (JObj kv), (sent @ replicate j ?url) @ [?url])"
    using h by (intro api_get_body_returns) simp_all
  finally have "api_get P ?url sent = (Inr (JObj kv), sent @ replicate (Suc j) ?url)"
    by (simp only: replicate_snoc)
  with h show "search_jobs P a sent = (Inr r, sent @ replicate (Suc j) ?url)"
    by (simp add: search_jobs_valid)
next
  let ?url = "build_search_url a"
  assume h: "valid_args a
      \<and> (\<forall>i<MAX_RETRIES. \<exists>x. respond P (length sent + i) ?url = Raises x)
      \<and> respond P (length sent + (MAX_RETRIES - 1)) ?url = Raises e"
  then have "api_get P ?url sent = (Inl (HTTPError e), sent @ replicate MAX_RETRIES ?url)"
    by (intro api_get_all_raise) simp_all
  with h show "search_jobs P a sent = (Inl (HTTPError e), sent @ replicate MAX_RETRIES ?url)"
    by (simp add: search_jobs_valid)
qed

lemma valid_args_nurse: "valid_args (default_args ''nurse'')"
  by (simp add: valid_args_def default_args_def py_isspace_def)

lemma SearchResults_init_example:
  "SearchResults_init (example_platform script)
     [(''message'', JStr msg), (''statuscode'', JStr code), (''common'', JObj [])]
   = Some (example_page msg code)"
  by (simp add: SearchResults_init_def required_def with_default_def str_field_def
      model_field_def CommonFilters_init_def example_page_def)

theorem api_get_retry_policy_witness:
  "search_jobs
     (example_platform (\<lambda>n url. if n < 2 then Raises TimeoutException
        else Body (Inr (JObj [(''message'', JStr ''Success''), (''statuscode'', JStr ''1''),
               (''common'', JObj [])]))))
     (default_args ''nurse'') []
   = (Inr (example_page ''Success'' ''1''),
      replicate 3 (build_search_url (default_args ''nurse'')))
   \<and> search_jobs (example_platform (\<lambda>n url. Raises TimeoutException))
       (default_args ''nurse'') []
     = (Inl (HTTPError TimeoutException),
        replicate 3 (build_search_url (default_args ''nurse'')))"
proof -
  let ?kv = "[(''message'', JStr ''Success''), (''statuscode'', JStr ''1''),
      (''common'', JObj [])]"
  let ?P = "example_platform (\<lambda>n url. if n < 2 then Raises TimeoutException
        else Body (Inr (JObj ?kv)))"
  let ?Q = "example_platform (\<lambda>n url. Raises TimeoutException) :: string platform"
  let ?a = "default_args ''nurse''"
  have 1: "2 < MAX_RETRIES" "MAX_RETRIES - 1 = 2" "Suc 2 = 3" "MAX_RETRIES = 3"
    by (simp_all add: MAX_RETRIES_def)
  have 2: "\<forall>i<2. \<exists>x. respond ?P (length ([] :: string list) + i) (build_search_url ?a) = Raises x"
    by (simp add: example_platform_def)
  have 3: "respond ?P (length ([] :: string list) + 2) (build_search_url ?a) = Body (Inr (JObj ?kv))"
    by (simp add: example_platform_def)
  have 4: "\<not> signals_api_error (JObj ?kv)"
    by (simp add: signals_api_error_def)
  have 5: "SearchResults_init ?P ?kv = Some (example_page ''Success'' ''1'')"
    by (rule SearchResults_init_example)
  have 6: "\<forall>i<MAX_RETRIES. \<exists>x. respond ?Q (length ([] :: string list) + i) (build_search_url ?a) = Raises x"
    "respond ?Q (length ([] :: string list) + (MAX_RETRIES - 1)) (build_search_url ?a)
      = Raises TimeoutException"
    by (simp_all add: example_platform_def)
  from api_get_retry_policy [where P = ?P and a = ?a and j = 2 and sent = "[]" and kv = ?kv
      and r = "example_page ''Success'' ''1''"] valid_args_nurse 1 2 3 4 5
  have A: "search_jobs ?P ?a [] = (Inr (example_page ''Success'' ''1''),
      replicate 3 (build_search_url ?a))"
    by simp
  from api_get_retry_policy [where P = ?Q and a = ?a and sent = "[]" and e = TimeoutException]
    valid_args_nurse 6
  have "search_jobs ?Q ?a [] = (Inl (HTTPError TimeoutException),
      [] @ replicate MAX_RETRIES (build_search_url ?a))"
    by blast
  then have B: "search_jobs ?Q ?a [] = (Inl (HTTPError TimeoutException),
      replicate 3 (build_search_url ?a))"
    by (simp add: MAX_RETRIES_def)
  from A B show ?thesis by simp
qed

section \<open>The API-error check and the kinds of error\<close>

lemma signals_api_error_iff:
  "signals_api_error d \<longleftrightarrow>
     (\<exists>kv v. d = JObj kv \<and> map_of kv ''statuscode'' = Some v \<and> truthy v \<and> v \<noteq> JStr ''1'')"
  by (cases d) (auto simp: signals_api_error_def split: option.splits)

lemma api_get_body_RuntimeError_iff:
  "(\<exists>m. fst (api_get_body P url sent) = Inl (RuntimeError m)) \<longleftrightarrow>
     (\<exists>d. respond P (length sent) url = Body (Inr d) \<and> signals_api_error d)"
proof (cases "respond P (length sent) url")
  case (Raises e)
  then show ?thesis by (simp add: api_get_body_raises)
next
  case (Body b)
  show ?thesis
  proof (cases b)
    case (Inl m)
    with Body show ?thesis by (simp add: api_get_body_invalid_json)
  next
    case (Inr d)
    show ?thesis
    proof (cases "signals_api_error d")
      case True
      then obtain kv where "d = JObj kv"
        by (auto simp: signals_api_error_iff)
      with True Inr Body show ?thesis by (simp add: api_get_body_api_error)
    next
      case False
      with Inr Body show ?thesis by (simp add: api_get_body_returns)
    qed
  qed
qed

lemma api_get_first_body:
  assumes "respond P (length sent) url = Body b"
  shows "api_get P url sent = api_get_body P url sent"
  using api_get_until_body [where j = 0 and P = P and sent = sent and url = url and b = b]
    assms
  by (simp add: MAX_RETRIES_def)

lemma SearchResults_init_statuscode:
  assumes "SearchResults_init P kv = Some r" and "map_of kv ''statuscode'' = Some (JStr s)"
  shows "statuscode r = s"
  using assms by (auto simp: SearchResults_init_eq_Some required_str_field)

text \<open>
  C10. One attempt of \<open>api_get\<close> raises the API error (a \<open>RuntimeError\<close>) exactly when
  the decoded body is a dictionary whose \<open>statuscode\<close> is present, truthy and not
  \<open>"1"\<close>. A dictionary whose \<open>statuscode\<close> is missing or is the empty string, and a
  body that is not a dictionary (a top-level array, say), is returned by \<open>api_get\<close>
  after the one request. A body with the empty status code from which a page is
  constructed reaches the caller of \<open>search_jobs\<close> as that page, and \<open>is_success\<close> is
  false on it.
\<close>

theorem api_error_check_scope:
  "((\<exists>m. fst (api_get_body P url sent) = Inl (RuntimeError m)) \<longleftrightarrow>
      (\<exists>kv v. respond P (length sent) url = Body (Inr (JObj kv))
         \<and> map_of kv ''statuscode'' = Some v \<and> truthy v \<and> v \<noteq> JStr ''1''))
   \<and> (respond P (length sent) url = Body (Inr (JObj kv))
       \<and> (map_of kv ''statuscode'' = None \<or> map_of kv ''statuscode'' = Some (JStr '''')) \<longrightarrow>
       api_get P url sent = (Inr (JObj kv), sent @ [url]))
   \<and> (respond P (length sent) url = Body (Inr d) \<and> (\<forall>kv'. d \<noteq> JObj kv') \<longrightarrow>
       api_get P url sent = (Inr d, sent @ [url]))
   \<and> (valid_args a \<and> respond P (length sent) (build_search_url a) = Body (Inr (JObj kv))
       \<and> map_of kv ''statuscode'' = Some (JStr '''') \<and> SearchResults_init P kv = Some r \<longrightarrow>
       search_jobs P a sent = (Inr r, sent @ [build_search_url a])
       \<and> statuscode r = '''' \<and> \<not> is_success r)"
proof (intro conjI impI)
  show "(\<exists>m. fst (api_get_body P url sent) = Inl (RuntimeError m)) \<longleftrightarrow>
      (\<exists>kv v. respond P (length sent) url = Body (Inr (JObj kv))
         \<and> map_of kv ''statuscode'' = Some v \<and> truthy v \<and> v \<noteq> JStr ''1'')"
    unfolding api_get_body_RuntimeError_iff signals_api_error_iff by auto
next
  assume h: "respond P (length sent) url = Body (Inr (JObj kv))
       \<and> (map_of kv ''statuscode'' = None \<or> map_of kv ''statuscode'' = Some (JStr ''''))"
  then have "\<not> signals_api_error (JObj kv)"
    by (auto simp: signals_api_error_iff)
  with h show "api_get P url sent = (Inr (JObj kv), sent @ [url])"
    by (simp add: api_get_first_body api_get_body_returns)
next
  assume h: "respond P (length sent) url = Body (Inr d) \<and> (\<forall>kv'. d \<noteq> JObj kv')"
  then have "\<not> signals_api_error d"
    by (auto simp: signals_api_error_iff)
  with h show "api_get P url sent = (Inr d, sent @ [url])"
    by (simp add: api_get_first_body api_get_body_returns)
next
  let ?url = "build_search_url a"
  assume h: "valid_args a \<and> respond P (length sent) ?url = Body (Inr (JObj kv))
       \<and> map_of kv ''statuscode'' = Some (JStr '''') \<and> SearchResults_init P kv = Some r"
  then have "\<not> signals_api_error (JObj kv)"
    by (auto simp: signals_api_error_iff)
  with h have "api_get P ?url sent = (Inr (JObj kv), sent @ [?url])"
    by (simp add: api_get_first_body api_get_body_returns)
  with h show "search_jobs P a sent = (Inr r, sent @ [?url])"
    by (simp add: search_jobs_valid)
  from h show s: "statuscode r = ''''"
    using SearchResults_init_statuscode by blast
  then show "\<not> is_success r"
    by (simp add: is_success_def)
qed

theorem api_error_check_scope_witness:
  "search_jobs
     (example_platform (\<lambda>n url. Body (Inr (JObj [(''message'', JStr ''No data''),
        (''statuscode'', JStr ''''), (''common'', JObj [])]))))
     (default_args ''nurse'') []
   = (Inr (example_page ''No data'' ''''), [build_search_url (default_args ''nurse'')])
   \<and> \<not> is_success (example_page ''No data'' '''' :: string SearchResults)
   \<and> api_get (example_platform (\<lambda>n url. Body (Inr (JArr [JInt 1])))) ''u'' []
     = (Inr (JArr [JInt 1]), [''u''])"
proof -
  let ?kv = "[(''message'', JStr ''No data''), (''statuscode'', JStr ''''),
      (''common'', JObj [])]"
  let ?P = "example_platform (\<lambda>n url. Body (Inr (JObj ?kv)))"
  let ?Q = "example_platform (\<lambda>n url. Body (Inr (JArr [JInt 1]))) :: string platform"
  let ?a = "default_args ''nurse''"
  let ?r = "example_page ''No data'' '''' :: string SearchResults"
  have 1: "respond ?P (length ([] :: string list)) (build_search_url ?a) = Body (Inr (JObj ?kv))"
    by (simp add: example_platform_def)
  have 2: "map_of ?kv ''statuscode'' = Some (JStr '''')"
    by simp
  have 3: "SearchResults_init ?P ?kv = Some ?r"
    by (rule SearchResults_init_example)
  have 4: "respond ?Q (length ([] :: string list)) ''u'' = Body (Inr (JArr [JInt 1]))"
    "\<forall>kv'. JArr [JInt 1] \<noteq> JObj kv'"
    by (simp_all add: example_platform_def)
  from api_error_check_scope [where P = ?P and a = ?a and sent = "[]" and kv = ?kv and r = ?r]
    valid_args_nurse 1 2 3
  have A: "search_jobs ?P ?a [] = (Inr ?r, [] @ [build_search_url ?a]) \<and> \<not> is_success ?r"
    by blast
  from api_error_check_scope [where P = ?Q and url = "''u''" and sent = "[]"
      and d = "JArr [JInt 1]"] 4
  have B: "api_get ?Q ''u'' [] = (Inr (JArr [JInt 1]), [] @ [''u''])"
    by blast
  from A B show ?thesis by simp
qed

text \<open>
  C5. Each of the four kinds of error reaches the caller of \<open>search_jobs\<close> as a raised
  exception, and \<open>kind_of\<close>, a function of the exception alone, recovers the kind:
  rejected arguments give a validation error; httpx errors on all \<open>MAX_RETRIES\<close>
  attempts give a transport error; a body that signals an API error gives an API
  error; a body that is not JSON, or that is not a dictionary, or from which no page
  can be constructed, gives a format error. The four kinds are different.
\<close>

theorem error_kinds_visible_and_distinguishable:
  "(\<not> valid_args a \<longrightarrow>
      (\<exists>e. search_jobs P a sent = (Inl e, sent) \<and> kind_of e = ValidationError))
   \<and> (valid_args a
       \<and> (\<forall>i<MAX_RETRIES. \<exists>x. respond P (length sent + i) (build_search_url a) = Raises x) \<longrightarrow>
      (\<exists>e sent'. search_jobs P a sent = (Inl e, sent') \<and> kind_of e = TransportError))
   \<and> (valid_args a \<and> j < MAX_RETRIES
       \<and> (\<forall>i<j. \<exists>x. respond P (length sent + i) (build_search_url a) = Raises x)
       \<and> respond P (length sent + j) (build_search_url a) = Body (Inr d)
       \<and> signals_api_error d \<longrightarrow>
      (\<exists>e sent'. search_jobs P a sent = (Inl e, sent') \<and> kind_of e = APIError))
   \<and> (valid_args a \<and> j < MAX_RETRIES
       \<and> (\<forall>i<j. \<exists>x. respond P (length sent + i) (build_search_url a) = Raises x)
       \<and> respond P (length sent + j) (build_search_url a) = Body (Inl m) \<longrightarrow>
      (\<exists>e sent'. search_jobs P a sent = (Inl e, sent') \<and> kind_of e = FormatError))
   \<and> (valid_args a \<and> j < MAX_RETRIES
       \<and> (\<forall>i<j. \<exists>x. respond P (length sent + i) (build_search_url a) = Raises x)
       \<and> respond P (length sent + j) (build_search_url a) = Body (Inr d)
       \<and> \<not> signals_api_error d
       \<and> (case d of JObj kv \<Rightarrow> SearchResults_init P kv = None | _ \<Rightarrow> True) \<longrightarrow>
      (\<exists>e sent'. search_jobs P a sent = (Inl e, sent') \<and> kind_of e = FormatError))
   \<and> distinct [ValidationError, TransportError, APIError, FormatError]"
proof (intro conjI impI)
  assume "\<not> valid_args a"
  then have bad: "keyword a = [] \<or> (\<forall>c \<in> set (keyword a). py_isspace c) \<or> page a < 1
      \<or> results_per_page a < 1 \<or> 100 < results_per_page a"
    by (auto simp: valid_args_def)
  then show "\<exists>e. search_jobs P a sent = (Inl e, sent) \<and> kind_of e = ValidationError"
    by (auto simp: search_jobs_def strip_empty_iff validation_messages_def)
next
  let ?url = "build_search_url a"
  assume h: "valid_args a
      \<and> (\<forall>i<MAX_RETRIES. \<exists>x. respond P (length sent + i) ?url = Raises x)"
  have "MAX_RETRIES - 1 < MAX_RETRIES"
    by (simp add: MAX_RETRIES_def)
  with h obtain x where "respond P (length sent + (MAX_RETRIES - 1)) ?url = Raises x"
    by blast
  with h have "api_get P ?url sent = (Inl (HTTPError x), sent @ replicate MAX_RETRIES ?url)"
    by (intro api_get_all_raise) simp_all
  with h have "search_jobs P a sent = (Inl (HTTPError x), sent @ replicate MAX_RETRIES ?url)"
    by (simp add: search_jobs_valid)
  then show "\<exists>e sent'. search_jobs P a sent = (Inl e, sent') \<and> kind_of e = TransportError"
    by simp
next
  let ?url = "build_search_url a"
  assume h: "valid_args a \<and> j < MAX_RETRIES
      \<and> (\<forall>i<j. \<exists>x. respond P (length sent + i) ?url = Raises x)
      \<and> respond P (length sent + j) ?url = Body (Inr d) \<and> signals_api_error d"
  then obtain kv where d: "d = JObj kv"
    by (auto simp: signals_api_error_iff)
  from h have "api_get P ?url sent = api_get_body P ?url (sent @ replicate j ?url)"
    by (intro api_get_until_body [where b = "Inr d"]) simp_all
  also have "\<dots> = (Inl (RuntimeError (''API error: ''
        @ py_str P (dict_get_default kv ''message'' (JStr ''Unknown API error'')))),
      (sent @ replicate j ?url) @ [?url])"
    using h d by (intro api_get_body_api_error) simp_all
  finally show "\<exists>e sent'. search_jobs P a sent = (Inl e, sent') \<and> kind_of e = APIError"
    using h by (simp add: search_jobs_valid)
next
  let ?url = "build_search_url a"
  assume h: "valid_args a \<and> j < MAX_RETRIES
      \<and> (\<forall>i<j. \<exists>x. respond P (length sent + i) ?url = Raises x)
      \<and> respond P (length sent + j) ?url = Body (Inl m)"
  then have "api_get P ?url sent = api_get_body P ?url (sent @ replicate j ?url)"
    by (intro api_get_until_body [where b = "Inl m"]) simp_all
  also have "\<dots> = (Inl (ValueError (''API returned invalid JSON: '' @ m)),
      (sent @ replicate j ?url) @ [?url])"
    using h by (intro api_get_body_invalid_json) simp_all
  finally show "\<exists>e sent'. search_jobs P a sent = (Inl e, sent') \<and> kind_of e = FormatError"
    using h by (simp add: search_jobs_valid validation_messages_def)
next
  let ?url = "build_search_url a"
  assume h: "valid_args a \<and> j < MAX_RETRIES
      \<and> (\<forall>i<j. \<exists>x. respond P (length sent + i) ?url = Raises x)
      \<and> respond P (length sent + j) ?url = Body (Inr d) \<and> \<not> signals_api_error d
      \<and> (case d of JObj kv \<Rightarrow> SearchResults_init P kv = None | _ \<Rightarrow> True)"
  then have "api_get P ?url sent = api_get_body P ?url (sent @ replicate j ?url)"
    by (intro api_get_until_body [where b = "Inr d"]) simp_all
  also have "\<dots> = (Inr d, (sent @ replicate j ?url) @ [?url])"
    using h by (intro api_get_body_returns) simp_all
  finally have "api_get P ?url sent = (Inr d, (sent @ replicate j ?url) @ [?url])" .
  with h show "\<exists>e sent'. search_jobs P a sent = (Inl e, sent') \<and> kind_of e = FormatError"
    by (cases d) (simp_all add: search_jobs_valid validation_messages_def)
next
  show "distinct [ValidationError, TransportError, APIError, FormatError]"
    by simp
qed

theorem error_kinds_visible_and_distinguishable_witness:
  "(\<exists>e. search_jobs (example_platform (\<lambda>n url. Raises RequestError)) (default_args ''  '') []
        = (Inl e, []) \<and> kind_of e = ValidationError)
   \<and> (\<exists>e sent'. search_jobs (example_platform (\<lambda>n url. Raises RequestError))
        (default_args ''nurse'') [] = (Inl e, sent') \<and> kind_of e = TransportError)
   \<and> (\<exists>e sent'. search_jobs
        (example_platform (\<lambda>n url. Body (Inr (JObj [(''statuscode'', JStr ''0''),
           (''message'', JStr ''Bad request'')]))))
        (default_args ''nurse'') [] = (Inl e, sent') \<and> kind_of e = APIError)
   \<and> (\<exists>e sent'. search_jobs (example_platform (\<lambda>n url. Body (Inl ''Expecting value'')))
        (default_args ''nurse'') [] = (Inl e, sent') \<and> kind_of e = FormatError)
   \<and> (\<exists>e sent'. search_jobs (example_platform (\<lambda>n url. Body (Inr (JArr []))))
        (default_args ''nurse'') [] = (Inl e, sent') \<and> kind_of e = FormatError)"
proof -
  let ?a = "default_args ''nurse''"
  let ?url = "build_search_url ?a"
  let ?T = "example_platform (\<lambda>n url. Raises RequestError) :: string platform"
  let ?d = "JObj [(''statuscode'', JStr ''0''), (''message'', JStr ''Bad request'')]"
  let ?A = "example_platform (\<lambda>n url. Body (Inr ?d)) :: string platform"
  let ?F = "example_platform (\<lambda>n url. Body (Inl ''Expecting value'')) :: string platform"
  let ?G = "example_platform (\<lambda>n url. Body (Inr (JArr []))) :: string platform"
  have v: "\<not> valid_args (default_args ''  '')"
    by (simp add: valid_args_def default_args_def py_isspace_def)
  have z: "0 < MAX_RETRIES"
    by (simp add: MAX_RETRIES_def)
  have t: "\<forall>i<MAX_RETRIES. \<exists>x. respond ?T (length ([] :: string list) + i) ?url = Raises x"
    by (simp add: example_platform_def)
  have a: "\<forall>i<0. \<exists>x. respond ?A (length ([] :: string list) + i) ?url = Raises x"
    "respond ?A (length ([] :: string list) + 0) ?url = Body (Inr ?d)"
    "signals_api_error ?d"
    by (simp_all add: example_platform_def signals_api_error_def)
  have f: "\<forall>i<0. \<exists>x. respond ?F (length ([] :: string list) + i) ?url = Raises x"
    "respond ?F (length ([] :: string list) + 0) ?url = Body (Inl ''Expecting value'')"
    by (simp_all add: example_platform_def)
  have g: "\<forall>i<0. \<exists>x. respond ?G (length ([] :: string list) + i) ?url = Raises x"
    "respond ?G (length ([] :: string list) + 0) ?url = Body (Inr (JArr []))"
    "\<not> signals_api_error (JArr [])"
    "case JArr [] of JObj kv \<Rightarrow> SearchResults_init ?G kv = None | _ \<Rightarrow> True"
    by (simp_all add: example_platform_def signals_api_error_def)
  from error_kinds_visible_and_distinguishable [where P = ?T and a = "default_args ''  ''"
      and sent = "[]"] v
  have 1: "\<exists>e. search_jobs ?T (default_args ''  '') [] = (Inl e, [])
      \<and> kind_of e = ValidationError"
    by blast
  from error_kinds_visible_and_distinguishable [where P = ?T and a = ?a and sent = "[]"]
    valid_args_nurse t
  have 2: "\<exists>e sent'. search_jobs ?T ?a [] = (Inl e, sent') \<and> kind_of e = TransportError"
    by blast
  from error_kinds_visible_and_distinguishable [where P = ?A and a = ?a and sent = "[]"
      and j = 0 and d = ?d] valid_args_nurse z a
  have 3: "\<exists>e sent'. search_jobs ?A ?a [] = (Inl e, sent') \<and> kind_of e = APIError"
    by blast
  from error_kinds_visible_and_distinguishable [where P = ?F and a = ?a and sent = "[]"
      and j = 0 and m = "''Expecting value''"] valid_args_nurse z f
  have 4: "\<exists>e sent'. search_jobs ?F ?a [] = (Inl e, sent') \<and> kind_of e = FormatError"
    by blast
  from error_kinds_visible_and_distinguishable [where P = ?G and a = ?a and sent = "[]"
      and j = 0 and d = "JArr []"] valid_args_nurse z g
  have 5: "\<exists>e sent'. search_jobs ?G ?a [] = (Inl e, sent') \<and> kind_of e = FormatError"
    by blast
  from 1 2 3 4 5 show ?thesis
    by blast
qed

end
